theory Spec2Isabelle
  imports Main "HOL-Library.Word"
begin

unbundle bit_operations_syntax

section \<open>Common data\<close>

text \<open>
  Go's \<open>[]byte\<close> is a list of 8-bit words, \<open>uint32\<close>/\<open>uint64\<close> are words of that
  width (arithmetic wraps, as Go's does), \<open>codec.Address\<close> is the fixed array
  \<open>[33]byte\<close> and \<open>ids.ID\<close> the fixed array \<open>[32]byte\<close>; the array lengths are
  stated as hypotheses where a property depends on them.
\<close>

type_synonym byte = "8 word"

type_synonym bytes = "byte list"

type_synonym uint32 = "32 word"

type_synonym uint64 = "64 word"

type_synonym int32 = "32 word"

type_synonym Address = bytes

type_synonym ContractID = bytes

text \<open>
  Go's \<open>error\<close> values: \<open>errors.New\<close>/\<open>fmt.Errorf\<close> give \<open>ErrorString\<close>, the
  runtime's \<open>*ValidationError\<close> keeps its three fields, and a run-time panic is a
  value of its own so that it is never confused with a returned error.
\<close>

datatype error =
    ErrorString string
  | ValidationError (Message: string) (Rule: string) (Cause: "error option")
  | Panic string

definition NewValidationError :: "string \<Rightarrow> string \<Rightarrow> error option \<Rightarrow> error" where
  "NewValidationError msg rule err = ValidationError msg rule err"

definition ErrResourceLimitExceeded :: error where
  "ErrResourceLimitExceeded = ErrorString ''resource limit exceeded''"

section \<open>The execution store and fuel (contract.go)\<close>

text \<open>
  A \<open>wasmtime.Store\<close> carries the fuel counter and the linear memory of the instance
  that lives in it. \<open>GetFuel\<close> and \<open>SetFuel\<close> of the engine return an error when the
  engine was configured without fuel consumption: \<open>fuel_cell = None\<close>.
\<close>

record Store =
  fuel_cell :: "uint64 option"
  memory_data :: bytes

definition GetFuel :: "Store \<Rightarrow> error + uint64" where
  "GetFuel st =
     (case fuel_cell st of
        None \<Rightarrow> Inl (ErrorString ''fuel is not configured in this store'')
      | Some f \<Rightarrow> Inr f)"

definition SetFuel :: "Store \<Rightarrow> uint64 \<Rightarrow> error option \<times> Store" where
  "SetFuel st f =
     (case fuel_cell st of
        None \<Rightarrow> (Some (ErrorString ''fuel is not configured in this store''), st)
      | Some _ \<Rightarrow> (None, st\<lparr>fuel_cell := Some f\<rparr>))"

text \<open>
  \<open>ContractInstance\<close> holds the store and the result buffer; its immutable
  \<open>*wasmtime.Instance\<close> handle (the export table) is passed separately below.
  \<open>CallInfo.inst\<close> is a pointer: \<open>None\<close> is the nil pointer, whose dereference panics.
\<close>

record ContractInstance =
  store :: Store
  result :: bytes

definition nil_dereference :: error where
  "nil_dereference = Panic ''invalid memory address or nil pointer dereference''"

definition RemainingFuel :: "ContractInstance option \<Rightarrow> uint64 \<Rightarrow> error + uint64" where
  "RemainingFuel inst callFuel =
     (case inst of
        None \<Rightarrow> Inl nil_dereference
      | Some p \<Rightarrow> (case GetFuel (store p) of Inl _ \<Rightarrow> Inr callFuel | Inr remaining \<Rightarrow> Inr remaining))"

definition AddFuel :: "ContractInstance option \<Rightarrow> uint64 \<Rightarrow> error option \<times> ContractInstance option" where
  "AddFuel inst fuel =
     (case inst of
        None \<Rightarrow> (Some nil_dereference, None)
      | Some p \<Rightarrow>
          (case GetFuel (store p) of
             Inl _ \<Rightarrow> (None, Some p)
           | Inr remaining \<Rightarrow> (None, Some (p\<lparr>store := snd (SetFuel (store p) (remaining + fuel))\<rparr>))))"

definition ConsumeFuel :: "ContractInstance option \<Rightarrow> uint64 \<Rightarrow> error option \<times> ContractInstance option" where
  "ConsumeFuel inst fuel =
     (case inst of
        None \<Rightarrow> (Some nil_dereference, None)
      | Some p \<Rightarrow>
          (case GetFuel (store p) of
             Inl err \<Rightarrow> (Some err, Some p)
           | Inr remaining \<Rightarrow>
               if remaining < fuel then (Some (ErrorString ''out of fuel''), Some p)
               else (case SetFuel (store p) (remaining - fuel) of
                       (err, st') \<Rightarrow> (err, Some (p\<lparr>store := st'\<rparr>)))))"

section \<open>Byte-level helpers of the Go runtime\<close>

text \<open>
  Go's builtin \<open>copy(dst, src)\<close> overwrites the first \<open>min (len dst) (len src)\<close>
  elements of \<open>dst\<close> and leaves the rest (and the length) of \<open>dst\<close> alone.
\<close>

definition go_copy :: "'a list \<Rightarrow> 'a list \<Rightarrow> 'a list" where
  "go_copy dst src = (let n = min (length dst) (length src) in take n src @ drop n dst)"

text \<open>
  \<open>encoding/binary\<close>: \<open>BigEndian.PutUint64\<close> writes the most significant byte first;
  \<open>BigEndian.Uint64\<close> reads the first eight bytes and panics on a shorter slice.
\<close>

definition be_word :: "byte \<Rightarrow> byte \<Rightarrow> byte \<Rightarrow> byte \<Rightarrow> byte \<Rightarrow> byte \<Rightarrow> byte \<Rightarrow> byte \<Rightarrow> uint64" where
  "be_word b0 b1 b2 b3 b4 b5 b6 b7 =
     (ucast b7 OR push_bit 8 (ucast b6) OR push_bit 16 (ucast b5) OR push_bit 24 (ucast b4)
      OR push_bit 32 (ucast b3) OR push_bit 40 (ucast b2) OR push_bit 48 (ucast b1)
      OR push_bit 56 (ucast b0))"

definition BigEndian_PutUint64 :: "uint64 \<Rightarrow> bytes" where
  "BigEndian_PutUint64 v =
     [ucast (drop_bit 56 v), ucast (drop_bit 48 v), ucast (drop_bit 40 v), ucast (drop_bit 32 v),
      ucast (drop_bit 24 v), ucast (drop_bit 16 v), ucast (drop_bit 8 v), ucast v]"

definition BigEndian_Uint64 :: "bytes \<Rightarrow> error + uint64" where
  "BigEndian_Uint64 b =
     (case b of
        b0 # b1 # b2 # b3 # b4 # b5 # b6 # b7 # _ \<Rightarrow> Inr (be_word b0 b1 b2 b3 b4 b5 b6 b7)
      | _ \<Rightarrow> Inl (Panic ''index out of range [7]''))"

section \<open>The simulator's state (simulator/state/state.go)\<close>

text \<open>
  \<open>SimulatorState.data\<close> is a Go \<open>map[string][]byte\<close>; a Go string is a byte
  sequence, so the keys are byte lists. The receiver of every method is a pointer that
  the methods compare with nil: \<open>None\<close> is the nil receiver. Every method returns the
  state it leaves behind next to its error (\<open>None\<close> is Go's nil error).
\<close>

record SimulatorState =
  state_id :: uint64
  data :: "bytes \<rightharpoonup> bytes"

definition SimulatorState_GetValue :: "SimulatorState option \<Rightarrow> bytes \<Rightarrow> error + bytes option" where
  "SimulatorState_GetValue s key =
     (case s of
        None \<Rightarrow> Inl (ErrorString ''invalid state'')
      | Some st \<Rightarrow>
          if length key = 0 then Inl (ErrorString ''empty key'')
          else (case data st key of None \<Rightarrow> Inr None | Some v \<Rightarrow> Inr (Some v)))"

definition SimulatorState_Insert ::
  "SimulatorState option \<Rightarrow> bytes \<Rightarrow> bytes \<Rightarrow> error option \<times> SimulatorState option" where
  "SimulatorState_Insert s key v =
     (case s of
        None \<Rightarrow> (Some (ErrorString ''invalid state''), None)
      | Some st \<Rightarrow>
          if length key = 0 then (Some (ErrorString ''empty key''), Some st)
          else (None, Some (st\<lparr>data := (data st)(key \<mapsto> v)\<rparr>)))"

definition SimulatorState_Remove ::
  "SimulatorState option \<Rightarrow> bytes \<Rightarrow> error option \<times> SimulatorState option" where
  "SimulatorState_Remove s key =
     (case s of
        None \<Rightarrow> (Some (ErrorString ''invalid state''), None)
      | Some st \<Rightarrow>
          if length key = 0 then (Some (ErrorString ''empty key''), Some st)
          else (None, Some (st\<lparr>data := (data st)(key := None)\<rparr>)))"

text \<open>
  \<open>len\<close> of a returned value that may be the nil slice.
\<close>

definition len_value :: "bytes option \<Rightarrow> nat" where
  "len_value v = (case v of None \<Rightarrow> 0 | Some b \<Rightarrow> length b)"

text \<open>
  \<open>GetAccountContract\<close>: \<open>runtime.ContractID\<close> is declared \<open>type ContractID []byte\<close>
  (contract.go), so \<open>var contractID runtime.ContractID\<close> is the nil slice, of length 0,
  and \<open>copy(contractID[:], value)\<close> copies into that.
\<close>

definition SimulatorState_GetAccountContract ::
  "SimulatorState option \<Rightarrow> Address \<Rightarrow> error + ContractID" where
  "SimulatorState_GetAccountContract s account =
     (case s of
        None \<Rightarrow> Inl (ErrorString ''nil state'')
      | Some _ \<Rightarrow>
          (case SimulatorState_GetValue s account of
             Inl err \<Rightarrow> Inl err
           | Inr v \<Rightarrow>
               if len_value v \<noteq> 32 then Inl (ErrorString ''invalid contract ID length'')
               else (let contractID = [] :: ContractID
                     in Inr (go_copy contractID (case v of None \<Rightarrow> [] | Some b \<Rightarrow> b)))))"

definition SimulatorState_SetAccountContract ::
  "SimulatorState option \<Rightarrow> Address \<Rightarrow> ContractID \<Rightarrow> error option \<times> SimulatorState option" where
  "SimulatorState_SetAccountContract s account contractID =
     (case s of
        None \<Rightarrow> (Some (ErrorString ''nil state''), None)
      | Some _ \<Rightarrow> SimulatorState_Insert s account contractID)"

definition SimulatorState_GetContractBytes ::
  "SimulatorState option \<Rightarrow> ContractID \<Rightarrow> error + bytes option" where
  "SimulatorState_GetContractBytes s contractID =
     (case s of
        None \<Rightarrow> Inl (ErrorString ''nil state'')
      | Some _ \<Rightarrow> SimulatorState_GetValue s contractID)"

definition SimulatorState_SetContractBytes ::
  "SimulatorState option \<Rightarrow> ContractID \<Rightarrow> bytes \<Rightarrow> error option \<times> SimulatorState option" where
  "SimulatorState_SetContractBytes s contractID code =
     (case s of
        None \<Rightarrow> (Some (ErrorString ''nil state''), None)
      | Some _ \<Rightarrow> SimulatorState_Insert s contractID code)"

text \<open>
  \<open>codec.EmptyAddress\<close> is the zero value of \<open>[33]byte\<close>. \<open>balanceKey\<close> formats the
  address with \<open>fmt.Sprintf("balance:%s", addr)\<close>; how \<open>codec.Address\<close> prints is
  decided in the codec package, outside these sources, so the rendering \<open>addrText\<close> is
  a parameter.
\<close>

definition EmptyAddress :: Address where
  "EmptyAddress = replicate 33 0"

definition balanceKey :: "(Address \<Rightarrow> bytes) \<Rightarrow> Address \<Rightarrow> bytes" where
  "balanceKey addrText addr = map of_char ''balance:'' @ addrText addr"

definition SimulatorState_GetBalance ::
  "(Address \<Rightarrow> bytes) \<Rightarrow> SimulatorState option \<Rightarrow> Address \<Rightarrow> error + uint64" where
  "SimulatorState_GetBalance addrText s addr =
     (case s of
        None \<Rightarrow> Inl (ErrorString ''nil state'')
      | Some st \<Rightarrow>
          (case data st (balanceKey addrText addr) of
             None \<Rightarrow> Inr 0
           | Some v \<Rightarrow> BigEndian_Uint64 v))"

definition SimulatorState_TransferBalance ::
  "(Address \<Rightarrow> bytes) \<Rightarrow> SimulatorState option \<Rightarrow> Address \<Rightarrow> Address \<Rightarrow> uint64
     \<Rightarrow> error option \<times> SimulatorState option" where
  "SimulatorState_TransferBalance addrText s from to amount =
     (case s of
        None \<Rightarrow> (Some (ErrorString ''nil state''), None)
      | Some st \<Rightarrow>
          (case (if from \<noteq> EmptyAddress then
                   (case SimulatorState_GetBalance addrText (Some st) from of
                      Inl err \<Rightarrow> Inl err
                    | Inr fromBalance \<Rightarrow>
                        if fromBalance < amount then Inl (ErrorString ''insufficient balance'')
                        else (let newFromBalance = fromBalance - amount;
                                  fromBalanceBytes = BigEndian_PutUint64 newFromBalance
                              in Inr (st\<lparr>data := (data st)(balanceKey addrText from \<mapsto> fromBalanceBytes)\<rparr>)))
                 else Inr st) of
             Inl err \<Rightarrow> (Some err, Some st)
           | Inr st1 \<Rightarrow>
               (case SimulatorState_GetBalance addrText (Some st1) to of
                  Inl err \<Rightarrow> (Some err, Some st1)
                | Inr toBalance \<Rightarrow>
                    (let newToBalance = toBalance + amount;
                         toBalanceBytes = BigEndian_PutUint64 newToBalance
                     in (None, Some (st1\<lparr>data := (data st1)(balanceKey addrText to \<mapsto> toBalanceBytes)\<rparr>))))))"

text \<open>
  \<open>ContractState\<close> wraps the simulator state for one contract address; each operation
  rejects the empty key and otherwise calls the simulator state with
  \<open>append(c.address[:], key...)\<close>. The address array has no spare capacity, so
  \<open>append\<close> builds a fresh slice.
\<close>

definition ContractState_GetValue ::
  "SimulatorState option \<Rightarrow> Address \<Rightarrow> bytes \<Rightarrow> error + bytes option" where
  "ContractState_GetValue s address key =
     (if length key = 0 then Inl (ErrorString ''empty key'')
      else (let prefixedKey = address @ key in SimulatorState_GetValue s prefixedKey))"

definition ContractState_Insert ::
  "SimulatorState option \<Rightarrow> Address \<Rightarrow> bytes \<Rightarrow> bytes \<Rightarrow> error option \<times> SimulatorState option" where
  "ContractState_Insert s address key v =
     (if length key = 0 then (Some (ErrorString ''empty key''), s)
      else (let prefixedKey = address @ key in SimulatorState_Insert s prefixedKey v))"

definition ContractState_Remove ::
  "SimulatorState option \<Rightarrow> Address \<Rightarrow> bytes \<Rightarrow> error option \<times> SimulatorState option" where
  "ContractState_Remove s address key =
     (if length key = 0 then (Some (ErrorString ''empty key''), s)
      else (let prefixedKey = address @ key in SimulatorState_Remove s prefixedKey))"

section \<open>The runtime's test doubles (runtime/util_test.go)\<close>

text \<open>
  \<open>state.Mutable\<close> is an interface of three methods over some store \<open>'db\<close>.
  \<open>prefixedState\<close> wraps an inner \<open>Mutable\<close> and rewrites the key with
  \<open>prependAccountToKey\<close>, which allocates \<open>len(account) + len(key) + 1\<close> zero bytes
  and fills them with three \<open>copy\<close> calls.
\<close>

record 'db Mutable =
  GetValue :: "'db \<Rightarrow> bytes \<Rightarrow> error + bytes option"
  Insert :: "'db \<Rightarrow> bytes \<Rightarrow> bytes \<Rightarrow> error option \<times> 'db"
  Remove :: "'db \<Rightarrow> bytes \<Rightarrow> error option \<times> 'db"

definition copy_at :: "'a list \<Rightarrow> nat \<Rightarrow> 'a list \<Rightarrow> 'a list" where
  "copy_at dst off src = take off dst @ go_copy (drop off dst) src"

definition prependAccountToKey :: "Address \<Rightarrow> bytes \<Rightarrow> bytes" where
  "prependAccountToKey account key =
     (let result0 = replicate (length account + length key + 1) (0 :: byte);
          result1 = go_copy result0 account;
          result2 = copy_at result1 (length account) (map of_char ''/'');
          result3 = copy_at result2 (length account + 1) key
      in result3)"

definition prefixedState_GetValue ::
  "'db Mutable \<Rightarrow> Address \<Rightarrow> 'db \<Rightarrow> bytes \<Rightarrow> error + bytes option" where
  "prefixedState_GetValue inner address db key =
     GetValue inner db (prependAccountToKey address key)"

definition prefixedState_Insert ::
  "'db Mutable \<Rightarrow> Address \<Rightarrow> 'db \<Rightarrow> bytes \<Rightarrow> bytes \<Rightarrow> error option \<times> 'db" where
  "prefixedState_Insert inner address db key v =
     Insert inner db (prependAccountToKey address key) v"

definition prefixedState_Remove ::
  "'db Mutable \<Rightarrow> Address \<Rightarrow> 'db \<Rightarrow> bytes \<Rightarrow> error option \<times> 'db" where
  "prefixedState_Remove inner address db key =
     Remove inner db (prependAccountToKey address key)"

text \<open>
  \<open>TestStateManager.Balances\<close> is a \<open>map[codec.Address]uint64\<close>; reading a missing
  key gives 0 and \<open>-=\<close>/\<open>+=\<close> read, compute and store in that order.
\<close>

type_synonym Balances = "Address \<rightharpoonup> uint64"

definition balance_of :: "Balances \<Rightarrow> Address \<Rightarrow> uint64" where
  "balance_of b a = (case b a of None \<Rightarrow> 0 | Some v \<Rightarrow> v)"

definition TestStateManager_GetBalance :: "Balances \<Rightarrow> Address \<Rightarrow> error + uint64" where
  "TestStateManager_GetBalance b address =
     (case b address of Some balance \<Rightarrow> Inr balance | None \<Rightarrow> Inr 0)"

definition TestStateManager_TransferBalance ::
  "Balances \<Rightarrow> Address \<Rightarrow> Address \<Rightarrow> uint64 \<Rightarrow> error option \<times> Balances" where
  "TestStateManager_TransferBalance b from to amount =
     (case TestStateManager_GetBalance b from of
        Inl err \<Rightarrow> (Some err, b)
      | Inr balance \<Rightarrow>
          if balance < amount then (Some (ErrorString ''insufficient balance''), b)
          else (let b1 = b(from \<mapsto> balance_of b from - amount);
                    b2 = b1(to \<mapsto> balance_of b1 to + amount)
                in (None, b2)))"

section \<open>The call path (contract.go)\<close>

text \<open>
  \<open>CallInfo\<close> without its two pointer fields: the state manager and the instance are
  passed to \<open>call\<close> separately. A machine is the contract instance (store and
  result buffer) together with the state the state manager acts on. An instantiated
  module is a table of exports; an exported function receives the machine and the
  single \<open>i32\<close> argument and returns its result or a trap together with the machine
  it leaves behind. \<open>borsh\<close> encodes a fixed byte array as its bytes and a \<open>uint64\<close>
  as eight bytes, least significant first.
\<close>

record ContractContext =
  ctxContract :: Address
  ctxActor :: Address
  ctxHeight :: uint64
  ctxTimestamp :: uint64
  ctxActionID :: bytes

record CallInfo =
  Actor :: Address
  FunctionName :: string
  Contract :: Address
  Params :: bytes
  Fuel :: uint64
  Height :: uint64
  Timestamp :: uint64
  ActionID :: bytes
  Value :: uint64

record 's StateManager =
  GetAccountContract :: "'s \<Rightarrow> Address \<Rightarrow> error + ContractID"
  GetContractBytes :: "'s \<Rightarrow> ContractID \<Rightarrow> error + bytes"
  TransferBalance :: "'s \<Rightarrow> Address \<Rightarrow> Address \<Rightarrow> uint64 \<Rightarrow> error option \<times> 's"

record 's Machine = ContractInstance +
  state :: 's

datatype Val = NoVal | I32 int32 | I64 uint64

datatype 's Extern =
    ExternFunc "'s Machine \<Rightarrow> int32 \<Rightarrow> (error + Val) \<times> 's Machine"
  | ExternMemory
  | ExternOther

type_synonym 's Instance = "string \<Rightarrow> 's Extern option"

definition MemoryName :: string where "MemoryName = ''memory''"

definition AllocName :: string where "AllocName = ''alloc''"

definition borsh_u8_array :: "bytes \<Rightarrow> bytes" where
  "borsh_u8_array a = concat (map (\<lambda>b. [b]) a)"

definition borsh_u64 :: "uint64 \<Rightarrow> bytes" where
  "borsh_u64 v =
     [ucast v, ucast (drop_bit 8 v), ucast (drop_bit 16 v), ucast (drop_bit 24 v),
      ucast (drop_bit 32 v), ucast (drop_bit 40 v), ucast (drop_bit 48 v), ucast (drop_bit 56 v)]"

definition customSerialize :: "ContractContext \<Rightarrow> bytes \<Rightarrow> error option \<times> bytes" where
  "customSerialize c b =
     (let b1 = b @ borsh_u8_array (ctxContract c);
          b2 = b1 @ borsh_u8_array (ctxActor c);
          b3 = b2 @ borsh_u64 (ctxHeight c);
          b4 = b3 @ borsh_u64 (ctxTimestamp c);
          actionIDBytes = ctxActionID c
      in (None, b4 @ actionIDBytes))"

definition GetFunc ::
  "'s Instance \<Rightarrow> string \<Rightarrow> ('s Machine \<Rightarrow> int32 \<Rightarrow> (error + Val) \<times> 's Machine) option" where
  "GetFunc inst name =
     (case inst name of
        None \<Rightarrow> None
      | Some ext \<Rightarrow> (case ext of ExternFunc f \<Rightarrow> Some f | _ \<Rightarrow> None))"

definition writeToMemory :: "'s Instance \<Rightarrow> 's Machine \<Rightarrow> bytes \<Rightarrow> (error + int32) \<times> 's Machine" where
  "writeToMemory inst m dat =
     (case inst AllocName of
        None \<Rightarrow> (Inl nil_dereference, m)
      | Some aext \<Rightarrow>
          (case aext of
             ExternFunc allocFn \<Rightarrow>
               (case inst MemoryName of
                  None \<Rightarrow> (Inl nil_dereference, m)
                | Some mext \<Rightarrow>
                    (case mext of
                       ExternMemory \<Rightarrow>
                         (case allocFn m (of_nat (length dat)) of
                            (Inl err, m') \<Rightarrow> (Inl err, m')
                          | (Inr v, m') \<Rightarrow>
                              (case v of
                                 I32 dataOffset \<Rightarrow>
                                   (let linearMem = memory_data (store m')
                                    in if sint dataOffset < 0 \<or> length linearMem < unat dataOffset
                                       then (Inl (Panic ''slice bounds out of range''), m')
                                       else (Inr dataOffset,
                                             m'\<lparr>store := (store m')\<lparr>memory_data :=
                                                  copy_at linearMem (unat dataOffset) dat\<rparr>\<rparr>))
                               | _ \<Rightarrow> (Inl (Panic ''interface conversion: interface {} is not int32''), m')))
                     | _ \<Rightarrow> (Inl (ErrorString (''memory '' @ MemoryName @ '' not found'')), m)))
           | _ \<Rightarrow> (Inl (ErrorString (''allocation function '' @ AllocName @ '' not found'')), m)))"

definition call ::
  "'s StateManager \<Rightarrow> 's Instance \<Rightarrow> CallInfo \<Rightarrow> 's Machine \<Rightarrow> (error + bytes) \<times> 's Machine" where
  "call sm inst callInfo m =
     (case GetFuel (store m) of
        Inl err \<Rightarrow> (Inl err, m)
      | Inr remaining \<Rightarrow>
          (case SetFuel (store m) (remaining + Fuel callInfo) of
             (Some err, st) \<Rightarrow> (Inl err, m\<lparr>store := st\<rparr>)
           | (None, st) \<Rightarrow>
               (case (if Value callInfo > 0
                      then TransferBalance sm (state m) (Actor callInfo) (Contract callInfo) (Value callInfo)
                      else (None, state m)) of
                  (Some err, s') \<Rightarrow> (Inl err, m\<lparr>store := st, state := s'\<rparr>)
                | (None, s') \<Rightarrow>
                    (let contractCtx = \<lparr>ctxContract = Contract callInfo, ctxActor = Actor callInfo,
                                         ctxHeight = Height callInfo, ctxTimestamp = Timestamp callInfo,
                                         ctxActionID = ActionID callInfo\<rparr>
                     in case customSerialize contractCtx [] of
                          (Some err, _) \<Rightarrow> (Inl err, m\<lparr>store := st, state := s'\<rparr>)
                        | (None, buf) \<Rightarrow>
                            (let paramsBytes = buf @ Params callInfo
                             in case writeToMemory inst (m\<lparr>store := st, state := s'\<rparr>) paramsBytes of
                                  (Inl err, m3) \<Rightarrow> (Inl err, m3)
                                | (Inr paramsOffset, m3) \<Rightarrow>
                                    (case GetFunc inst (FunctionName callInfo) of
                                       None \<Rightarrow>
                                         (Inl (ErrorString (''function '' @ FunctionName callInfo
                                                             @ '' does not exist'')), m3)
                                     | Some function \<Rightarrow>
                                         (case function m3 paramsOffset of
                                            (Inl err, m4) \<Rightarrow> (Inl err, m4)
                                          | (Inr _, m4) \<Rightarrow> (Inr (result m4), m4))))))))"

section \<open>Modules, limits and the validator (unnamed/part_008, unnamed/part_003, runtime/validator.go)\<close>

text \<open>
  \<open>decimal\<close> is \<open>%d\<close> of \<open>fmt\<close>. Of a \<open>wasmtime.Module\<close> the validator reads the list of
  exports and the list of imports, each with its extern type; a memory or table type
  carries its minimum and, when declared, its maximum.
\<close>

fun decimal :: "nat \<Rightarrow> string" where
  "decimal n = (if n < 10 then [char_of (48 + n)] else decimal (n div 10) @ [char_of (48 + n mod 10)])"

declare decimal.simps [simp del]

datatype ValKind = KindI32 | KindI64 | KindF32 | KindF64 | KindExternref | KindFuncref | KindOther

datatype ExternType =
    FuncType "ValKind list" "ValKind list"
  | GlobalType
  | MemoryType uint64 "uint64 option"
  | TableType uint64 "uint64 option"

record ExportType =
  expName :: string
  expType :: ExternType

record ImportType =
  impModule :: string
  impName :: "string option"
  impType :: ExternType

record Module =
  Exports :: "ExportType list"
  Imports :: "ImportType list"

record ResourceLimits =
  MaxContractSize :: uint32
  MaxFunctions :: uint32
  MaxImports :: uint32
  MaxExports :: uint32
  MaxGlobals :: uint32
  MaxInitialMemoryPages :: uint32
  MaxMemoryPages :: uint32
  MaxTableSize :: uint32

definition DefaultResourceLimits :: ResourceLimits where
  "DefaultResourceLimits =
     \<lparr>MaxContractSize = 1 * 1048576, MaxFunctions = 1000, MaxImports = 100, MaxExports = 100,
      MaxGlobals = 100, MaxInitialMemoryPages = 4, MaxMemoryPages = 16, MaxTableSize = 10000\<rparr>"











text \<open>
  A \<open>for ... range\<close> loop whose body may \<open>return\<close>: \<open>range_until body xs\<close> runs the body
  on the elements in order and is the first value returned, \<open>None\<close> when the loop
  runs to its end. \<open>count_into p xs c\<close> is the loop that increments the \<open>uint32\<close>
  counter \<open>c\<close> for the elements satisfying \<open>p\<close>.
\<close>

fun range_until :: "('a \<Rightarrow> 'r option) \<Rightarrow> 'a list \<Rightarrow> 'r option" where
  "range_until body [] = None"
| "range_until body (x # xs) = (case body x of Some r \<Rightarrow> Some r | None \<Rightarrow> range_until body xs)"

fun count_into :: "('a \<Rightarrow> bool) \<Rightarrow> 'a list \<Rightarrow> uint32 \<Rightarrow> uint32" where
  "count_into p [] c = c"
| "count_into p (x # xs) c = count_into p xs (if p x then c + 1 else c)"

definition isFuncType :: "ExternType \<Rightarrow> bool" where
  "isFuncType t = (case t of FuncType _ _ \<Rightarrow> True | _ \<Rightarrow> False)"

definition isGlobalType :: "ExternType \<Rightarrow> bool" where
  "isGlobalType t = (case t of GlobalType \<Rightarrow> True | _ \<Rightarrow> False)"












text \<open>
  \<open>ValidateResourceLimits\<close>, in the order of the source: the four counts
  (\<open>checkCounts\<close>), the loop over the exports that are memories (\<open>checkMemoryLimits\<close>,
  its body \<open>checkMemoryExport\<close>) and the loop over the exports that are tables
  (\<open>checkTableLimits\<close>, its body \<open>checkTableExport\<close>). \<open>limitExceeded\<close> abbreviates the
  error all of them build. \<open>uint32(...)\<close> of a 64-bit page count keeps its low 32 bits.
\<close>

definition limitExceeded :: "string \<Rightarrow> error" where
  "limitExceeded msg = NewValidationError msg ''resource-limits'' (Some ErrResourceLimitExceeded)"

definition checkCounts :: "Module \<Rightarrow> ResourceLimits \<Rightarrow> error option" where
  "checkCounts modl limits =
     (let exports = Exports modl; imports = Imports modl;
          funcCount = count_into (isFuncType \<circ> impType) imports
                        (count_into (isFuncType \<circ> expType) exports 0)
      in if funcCount > MaxFunctions limits
         then Some (limitExceeded (''function count '' @ decimal (unat funcCount) @ '' exceeds limit ''
                                     @ decimal (unat (MaxFunctions limits))))
         else if (of_nat (length exports) :: uint32) > MaxExports limits
         then Some (limitExceeded (''export count '' @ decimal (length exports) @ '' exceeds limit ''
                                     @ decimal (unat (MaxExports limits))))
         else if (of_nat (length imports) :: uint32) > MaxImports limits
         then Some (limitExceeded (''import count '' @ decimal (length imports) @ '' exceeds limit ''
                                     @ decimal (unat (MaxImports limits))))
         else (let globalCount = count_into (isGlobalType \<circ> impType) imports
                                   (count_into (isGlobalType \<circ> expType) exports 0)
               in if globalCount > MaxGlobals limits
                  then Some (limitExceeded (''global count '' @ decimal (unat globalCount)
                                              @ '' exceeds limit '' @ decimal (unat (MaxGlobals limits))))
                  else None))"

definition checkMemoryExport :: "ResourceLimits \<Rightarrow> ExportType \<Rightarrow> error option" where
  "checkMemoryExport limits exp =
     (case expType exp of
        MemoryType mn mx \<Rightarrow>
          (let min = (ucast mn :: uint32)
           in if min > MaxMemoryPages limits
              then Some (limitExceeded (''minimum memory pages '' @ decimal (unat min)
                                          @ '' exceeds limit '' @ decimal (unat (MaxMemoryPages limits))))
              else (case mx of
                      Some maxVal \<Rightarrow>
                        if (ucast maxVal :: uint32) > MaxMemoryPages limits
                        then Some (limitExceeded (''maximum memory pages '' @ decimal (unat maxVal)
                                                    @ '' exceeds limit ''
                                                    @ decimal (unat (MaxMemoryPages limits))))
                        else None
                    | None \<Rightarrow> None))
      | _ \<Rightarrow> None)"

definition checkMemoryLimits :: "Module \<Rightarrow> ResourceLimits \<Rightarrow> error option" where
  "checkMemoryLimits modl limits = range_until (checkMemoryExport limits) (Exports modl)"

definition checkTableExport :: "ResourceLimits \<Rightarrow> ExportType \<Rightarrow> error option" where
  "checkTableExport limits exp =
     (case expType exp of
        TableType mn mx \<Rightarrow>
          (let min = (ucast mn :: uint32)
           in if min > MaxTableSize limits
              then Some (limitExceeded (''minimum table size '' @ decimal (unat min)
                                          @ '' exceeds limit '' @ decimal (unat (MaxTableSize limits))))
              else (case mx of
                      Some maxVal \<Rightarrow>
                        if (ucast maxVal :: uint32) > MaxTableSize limits
                        then Some (limitExceeded (''maximum table size '' @ decimal (unat maxVal)
                                                    @ '' exceeds limit ''
                                                    @ decimal (unat (MaxTableSize limits))))
                        else None
                    | None \<Rightarrow> None))
      | _ \<Rightarrow> None)"

definition checkTableLimits :: "Module \<Rightarrow> ResourceLimits \<Rightarrow> error option" where
  "checkTableLimits modl limits = range_until (checkTableExport limits) (Exports modl)"

definition ValidateResourceLimits :: "Module \<Rightarrow> ResourceLimits \<Rightarrow> error option" where
  "ValidateResourceLimits modl limits =
     (case checkCounts modl limits of
        Some err \<Rightarrow> Some err
      | None \<Rightarrow>
          (case checkMemoryLimits modl limits of
             Some err \<Rightarrow> Some err
           | None \<Rightarrow> checkTableLimits modl limits))"



section \<open>The runtime (second part of runtime/util_test.go)\<close>

text \<open>
  The engine parses and instantiates modules and holds the module cache; the runtime
  keeps the cache handle and its resource limits. \<open>WasmRuntime.validateModule\<close> is a
  second, shorter validation used by \<open>getModule\<close>.
\<close>

record ('c, 's) Engine =
  NewModule :: "bytes \<Rightarrow> error + Module"
  Instantiate :: "Module \<Rightarrow> error + ('s Instance \<times> Store)"
  cacheGet :: "'c \<Rightarrow> bytes \<Rightarrow> Module option \<times> 'c"
  cachePut :: "'c \<Rightarrow> bytes \<Rightarrow> Module \<Rightarrow> 'c"

record 'c WasmRuntime =
  contractCache :: 'c
  limits :: ResourceLimits

definition WasmRuntime_validateModule :: "(bytes \<Rightarrow> error + Module) \<Rightarrow> ResourceLimits \<Rightarrow> bytes \<Rightarrow> error option" where
  "WasmRuntime_validateModule newModule lim bs =
     (case newModule bs of
        Inl err \<Rightarrow> Some (NewValidationError ''failed to parse module'' '''' (Some err))
      | Inr modl \<Rightarrow>
          (let exports = Exports modl; imports = Imports modl;
               funcCount = (of_nat (length exports + length imports) :: uint32)
           in if funcCount > MaxFunctions lim
              then Some (NewValidationError
                           (''function count '' @ decimal (unat funcCount) @ '' exceeds maximum allowed ''
                              @ decimal (unat (MaxFunctions lim)))
                           ''function-count'' None)
              else if (of_nat (length imports) :: uint32) > MaxImports lim
              then Some (NewValidationError
                           (''import count '' @ decimal (length imports) @ '' exceeds maximum allowed ''
                              @ decimal (unat (MaxImports lim)))
                           ''import-count'' None)
              else if (of_nat (length exports) :: uint32) > MaxExports lim
              then Some (NewValidationError
                           (''export count '' @ decimal (length exports) @ '' exceeds maximum allowed ''
                              @ decimal (unat (MaxExports lim)))
                           ''export-count'' None)
              else None))"

definition WasmRuntime_checkContractSize :: "ResourceLimits \<Rightarrow> bytes \<Rightarrow> error option" where
  "WasmRuntime_checkContractSize lim contractBytes =
     (if (of_nat (length contractBytes) :: uint32) > MaxContractSize lim
      then Some (NewValidationError
                   (''contract size '' @ decimal (length contractBytes) @ '' exceeds maximum allowed size ''
                      @ decimal (unat (MaxContractSize lim)))
                   ''contract-size'' None)
      else None)"

definition getModule ::
  "('c, 's) Engine \<Rightarrow> 's StateManager \<Rightarrow> 'c WasmRuntime \<Rightarrow> 's \<Rightarrow> bytes
     \<Rightarrow> (error + Module) \<times> 'c WasmRuntime" where
  "getModule eng sm r s ident =
     (case cacheGet eng (contractCache r) ident of
        (Some modl, c') \<Rightarrow> (Inr modl, r\<lparr>contractCache := c'\<rparr>)
      | (None, c') \<Rightarrow>
          (case GetContractBytes sm s ident of
             Inl err \<Rightarrow> (Inl err, r\<lparr>contractCache := c'\<rparr>)
           | Inr contractBytes \<Rightarrow>
               (case WasmRuntime_checkContractSize (limits r) contractBytes of
                  Some err \<Rightarrow> (Inl err, r\<lparr>contractCache := c'\<rparr>)
                | None \<Rightarrow>
                    (case WasmRuntime_validateModule (NewModule eng) (limits r) contractBytes of
                       Some err \<Rightarrow> (Inl err, r\<lparr>contractCache := c'\<rparr>)
                     | None \<Rightarrow>
                         (case NewModule eng contractBytes of
                            Inl err \<Rightarrow>
                              (Inl (NewValidationError ''failed to create module'' '''' (Some err)),
                               r\<lparr>contractCache := c'\<rparr>)
                          | Inr modl \<Rightarrow>
                              (Inr modl, r\<lparr>contractCache := cachePut eng c' ident modl\<rparr>))))))"

definition getInstance :: "('c, 's) Engine \<Rightarrow> Module \<Rightarrow> error + ('s Instance \<times> ContractInstance)" where
  "getInstance eng contractModule =
     (case Instantiate eng contractModule of
        Inl err \<Rightarrow> Inl (NewValidationError ''failed to instantiate module'' '''' (Some err))
      | Inr (inst, st) \<Rightarrow> Inr (inst, \<lparr>store = st, result = []\<rparr>))"

definition CallContract ::
  "('c, 's) Engine \<Rightarrow> 's StateManager \<Rightarrow> 'c WasmRuntime \<Rightarrow> CallInfo \<Rightarrow> 's
     \<Rightarrow> (error + bytes) \<times> 'c WasmRuntime \<times> 's \<times> ContractInstance option" where
  "CallContract eng sm r callInfo s =
     (case GetAccountContract sm s (Contract callInfo) of
        Inl err \<Rightarrow> (Inl err, r, s, None)
      | Inr contractID \<Rightarrow>
          (case getModule eng sm r s contractID of
             (Inl err, r') \<Rightarrow> (Inl err, r', s, None)
           | (Inr contractModule, r') \<Rightarrow>
               (case getInstance eng contractModule of
                  Inl err \<Rightarrow> (Inl err, r', s, None)
                | Inr (inst, p) \<Rightarrow>
                    (case call sm inst callInfo \<lparr>store = store p, result = result p, state = s\<rparr> of
                       (res, m') \<Rightarrow> (res, r', state m', Some \<lparr>store = store m', result = result m'\<rparr>)))))"

section \<open>Fixed states and the serialized context\<close>

text \<open>
  Two simulator states used in the instances below, the simulator state seen as a
  \<open>Mutable\<close>, and the bytes \<open>customSerialize\<close> produces for the context of a call.
\<close>

definition empty_state :: SimulatorState where
  "empty_state = \<lparr>state_id = 0, data = Map.empty\<rparr>"

definition funded_state :: SimulatorState where
  "funded_state = empty_state\<lparr>data := (data empty_state)
      (balanceKey (\<lambda>a. a) (replicate 33 2) \<mapsto> BigEndian_PutUint64 1000)\<rparr>"

definition SimulatorState_Mutable :: "SimulatorState option Mutable" where
  "SimulatorState_Mutable =
     \<lparr>GetValue = SimulatorState_GetValue, Insert = SimulatorState_Insert, Remove = SimulatorState_Remove\<rparr>"

definition ContextPrefix :: "CallInfo \<Rightarrow> bytes" where
  "ContextPrefix ci =
     Contract ci @ Actor ci @ borsh_u64 (Height ci) @ borsh_u64 (Timestamp ci) @ ActionID ci"

section \<open>Notions used in the statements\<close>

text \<open>
  These are not functions of the program. \<open>funcEntries\<close> and \<open>globalEntries\<close> count the
  entries of a module on the natural numbers; \<open>exceedsMemoryLimit\<close>, \<open>unboundedMemory\<close>
  and \<open>isMemoryExport\<close> name conditions on one export; \<open>le_value\<close> reads a byte list as
  a number, least significant byte first. The theorems relate the program's 32-bit
  counters, comparisons and encoders to them.
\<close>

definition funcEntries :: "Module \<Rightarrow> nat" where
  "funcEntries modl =
     length (filter (isFuncType \<circ> expType) (Exports modl))
       + length (filter (isFuncType \<circ> impType) (Imports modl))"

definition globalEntries :: "Module \<Rightarrow> nat" where
  "globalEntries modl =
     length (filter (isGlobalType \<circ> expType) (Exports modl))
       + length (filter (isGlobalType \<circ> impType) (Imports modl))"




definition le_value :: "bytes \<Rightarrow> nat" where
  "le_value bs = foldr (\<lambda>b acc. unat b + 256 * acc) bs 0"

section \<open>Concrete modules, limits, rules and machines\<close>

text \<open>
  The inputs at which the theorems below are instantiated.
\<close>

definition SimulatorState_StateManager :: "(Address \<Rightarrow> bytes) \<Rightarrow> SimulatorState option StateManager" where
  "SimulatorState_StateManager addrText =
     \<lparr>GetAccountContract = SimulatorState_GetAccountContract,
      GetContractBytes = (\<lambda>s contractID.
         case SimulatorState_GetContractBytes s contractID of
           Inl err \<Rightarrow> Inl err
         | Inr v \<Rightarrow> Inr (case v of None \<Rightarrow> [] | Some b \<Rightarrow> b)),
      TransferBalance = SimulatorState_TransferBalance addrText\<rparr>"

definition no_exports :: "SimulatorState option Instance" where
  "no_exports = (\<lambda>_. None)"

definition paying_call :: "uint64 \<Rightarrow> CallInfo" where
  "paying_call v =
     \<lparr>Actor = replicate 33 2, FunctionName = ''entry'', Contract = replicate 33 1, Params = [0xAA, 0xBB],
      Fuel = 1000, Height = 0x0102030405060708, Timestamp = 0x1112131415161718, ActionID = replicate 32 3, Value = v\<rparr>"

definition funded_machine :: "SimulatorState option Machine" where
  "funded_machine =
     \<lparr>store = \<lparr>fuel_cell = Some 0, memory_data = replicate 128 0\<rparr>, result = [],
      state = Some funded_state\<rparr>"

definition deployed_state :: SimulatorState where
  "deployed_state = funded_state\<lparr>data := (data funded_state)(replicate 33 1 \<mapsto> replicate 32 7)\<rparr>"

definition deployed_machine :: "SimulatorState option Machine" where
  "deployed_machine = funded_machine\<lparr>state := Some deployed_state\<rparr>"

definition echo_instance :: "SimulatorState option Instance" where
  "echo_instance =
     [''alloc'' \<mapsto> ExternFunc (\<lambda>m n. (Inr (I32 4), m)),
      ''memory'' \<mapsto> ExternMemory,
      ''entry'' \<mapsto> ExternFunc (\<lambda>m off.
          (Inr NoVal, m\<lparr>result := take 2 (drop (unat off + 114) (memory_data (store m)))\<rparr>))]"

definition written_machine :: "SimulatorState option Machine" where
  "written_machine =
     funded_machine\<lparr>store := \<lparr>fuel_cell = Some 1000,
        memory_data = replicate 4 0 @ ContextPrefix (paying_call 0) @ [0xAA, 0xBB] @ replicate 8 0\<rparr>\<rparr>"

definition late_instance :: "SimulatorState option Instance" where
  "late_instance =
     [''alloc'' \<mapsto> ExternFunc (\<lambda>m n. (Inr (I32 120), m)),
      ''memory'' \<mapsto> ExternMemory,
      ''entry'' \<mapsto> ExternFunc (\<lambda>m off.
          (Inr NoVal, m\<lparr>result := drop (unat off) (memory_data (store m))\<rparr>))]"

definition truncated_machine :: "SimulatorState option Machine" where
  "truncated_machine =
     funded_machine\<lparr>store := \<lparr>fuel_cell = Some 1000, memory_data = replicate 120 0 @ replicate 8 1\<rparr>\<rparr>"

definition full_state :: SimulatorState where
  "full_state = empty_state\<lparr>data := (data empty_state)
      (balanceKey (\<lambda>a. a) (replicate 33 1) \<mapsto> BigEndian_PutUint64 0xFFFFFFFFFFFFFFFF)\<rparr>"

definition test_balances :: Balances where
  "test_balances = [replicate 33 2 \<mapsto> 1000]"





definition two_function_limits :: ResourceLimits where
  "two_function_limits =
     \<lparr>MaxContractSize = 1048576, MaxFunctions = 2, MaxImports = 10, MaxExports = 10,
      MaxGlobals = 10, MaxInitialMemoryPages = 4, MaxMemoryPages = 16, MaxTableSize = 10000\<rparr>"

definition three_functions :: Module where
  "three_functions =
     \<lparr>Exports = [\<lparr>expName = ''test1'', expType = FuncType [] []\<rparr>,
                 \<lparr>expName = ''test2'', expType = FuncType [] []\<rparr>,
                 \<lparr>expName = ''test3'', expType = FuncType [] []\<rparr>],
      Imports = []\<rparr>"

definition cached_engine :: "(unit, SimulatorState option) Engine" where
  "cached_engine =
     \<lparr>NewModule = (\<lambda>_. Inl (ErrorString ''not a module'')),
      Instantiate = (\<lambda>_. Inr (no_exports, \<lparr>fuel_cell = Some 0, memory_data = replicate 128 0\<rparr>)),
      cacheGet = (\<lambda>c _. (Some three_functions, c)),
      cachePut = (\<lambda>c _ _. c)\<rparr>"

definition three_globals :: Module where
  "three_globals =
     \<lparr>Exports = [\<lparr>expName = ''g1'', expType = GlobalType\<rparr>, \<lparr>expName = ''g2'', expType = GlobalType\<rparr>,
                 \<lparr>expName = ''g3'', expType = GlobalType\<rparr>],
      Imports = []\<rparr>"

definition many_globals :: Module where
  "many_globals =
     \<lparr>Exports = map (\<lambda>i. \<lparr>expName = ''g'' @ decimal i, expType = GlobalType\<rparr>) [0..<60],
      Imports = map (\<lambda>i. \<lparr>impModule = ''env'', impName = Some (''g'' @ decimal i),
                           impType = GlobalType\<rparr>) [0..<60]\<rparr>"










section \<open>Fuel accounting\<close>

text \<open>
  C3. When the store of the instance reports \<open>remaining\<close> fuel, \<open>ConsumeFuel n\<close> with
  \<open>remaining < n\<close> returns the error "out of fuel" and leaves the instance (and so
  the fuel counter) exactly as it was; with \<open>n \<le> remaining\<close> it returns no error and
  the counter becomes \<open>remaining - n\<close>, nothing else changing.
\<close>

theorem ConsumeFuel_all_or_nothing:
  assumes "GetFuel (store p) = Inr remaining"
  shows "(remaining < n \<longrightarrow>
            ConsumeFuel (Some p) n = (Some (ErrorString ''out of fuel''), Some p))
       \<and> (n \<le> remaining \<longrightarrow>
            ConsumeFuel (Some p) n
              = (None, Some (p\<lparr>store := (store p)\<lparr>fuel_cell := Some (remaining - n)\<rparr>\<rparr>))
            \<and> unat (remaining - n) = unat remaining - unat n)"
  using assms
  by (auto simp: ConsumeFuel_def GetFuel_def SetFuel_def unat_sub
           split: option.splits)

text \<open>
  With 5 units of fuel left, consuming 7 fails and leaves 5; consuming 3 leaves 2.
\<close>

theorem ConsumeFuel_all_or_nothing_witness:
  "ConsumeFuel (Some \<lparr>store = \<lparr>fuel_cell = Some 5, memory_data = []\<rparr>, result = []\<rparr>) 7
     = (Some (ErrorString ''out of fuel''),
        Some \<lparr>store = \<lparr>fuel_cell = Some 5, memory_data = []\<rparr>, result = []\<rparr>)
   \<and> ConsumeFuel (Some \<lparr>store = \<lparr>fuel_cell = Some 5, memory_data = []\<rparr>, result = []\<rparr>) 3
     = (None, Some \<lparr>store = \<lparr>fuel_cell = Some 2, memory_data = []\<rparr>, result = []\<rparr>)"
proof -
  let ?p = "\<lparr>store = \<lparr>fuel_cell = Some (5::uint64), memory_data = []\<rparr>, result = []\<rparr>"
  have g: "GetFuel (store ?p) = Inr 5"
    by (simp add: GetFuel_def)
  from ConsumeFuel_all_or_nothing [OF g, of 7] ConsumeFuel_all_or_nothing [OF g, of 3]
  show ?thesis by simp
qed

section \<open>Contract-scoped state keys\<close>

lemma go_copy_fits: "length src \<le> length dst \<Longrightarrow> go_copy dst src = src @ drop (length src) dst"
  by (simp add: go_copy_def min_def)

lemma copy_at_fits:
  "off + length src \<le> length dst \<Longrightarrow>
   copy_at dst off src = take off dst @ src @ drop (off + length src) dst"
  by (simp add: copy_at_def go_copy_fits add.commute)

lemma prependAccountToKey_eq: "prependAccountToKey account key = account @ [0x2F] @ key"
proof -
  let ?n = "length account + length key + 1"
  have r1: "go_copy (replicate ?n (0::byte)) account = account @ replicate (length key + 1) 0"
    by (simp add: go_copy_fits del: replicate.simps(2))
  have r2: "copy_at (account @ replicate (length key + 1) 0) (length account) (map of_char ''/'')
              = account @ [0x2F] @ replicate (length key) (0::byte)"
    by (simp add: copy_at_fits del: replicate.simps(2))
  have r3: "copy_at (account @ [0x2F] @ replicate (length key) (0::byte)) (length account + 1) key
              = account @ [0x2F] @ key"
    by (simp add: copy_at_fits)
  show ?thesis
    unfolding prependAccountToKey_def Let_def r1 r2 r3 ..
qed

text \<open>
  C2. The key a contract at \<open>address\<close> passes to a state operation reaches the store
  behind it as follows. Through \<open>prefixedState\<close> (get, insert and remove alike) the
  store sees \<open>address\<close>, then the byte \<open>0x2F\<close> ("/"), then the guest's key, for every
  key. Through the simulator's \<open>ContractState\<close> the store sees \<open>address\<close> immediately
  followed by the guest's key, with no separator byte, and an empty key is refused
  with the error "empty key" before the store is touched. In both cases the keys of
  two different 33-byte addresses never coincide, whatever the guest keys are.
\<close>

theorem contract_scoped_keys:
  "prefixedState_GetValue inner address db key = GetValue inner db (address @ [0x2F] @ key)
 \<and> prefixedState_Insert inner address db key v = Insert inner db (address @ [0x2F] @ key) v
 \<and> prefixedState_Remove inner address db key = Remove inner db (address @ [0x2F] @ key)
 \<and> (key \<noteq> [] \<longrightarrow>
        ContractState_GetValue s address key = SimulatorState_GetValue s (address @ key)
      \<and> ContractState_Insert s address key v = SimulatorState_Insert s (address @ key) v
      \<and> ContractState_Remove s address key = SimulatorState_Remove s (address @ key))
 \<and> ContractState_GetValue s address [] = Inl (ErrorString ''empty key'')
 \<and> ContractState_Insert s address [] v = (Some (ErrorString ''empty key''), s)
 \<and> ContractState_Remove s address [] = (Some (ErrorString ''empty key''), s)
 \<and> (length address = 33 \<and> length other = 33 \<and> address \<noteq> other \<longrightarrow>
        prependAccountToKey address key \<noteq> prependAccountToKey other key'
      \<and> address @ key \<noteq> other @ key')"
  by (simp add: prefixedState_GetValue_def prefixedState_Insert_def prefixedState_Remove_def
                prependAccountToKey_eq ContractState_GetValue_def ContractState_Insert_def
                ContractState_Remove_def)

text \<open>
  Inserting under the one-byte key \<open>[7]\<close> for the address of 33 bytes \<open>1\<close>: the key
  written is the address, \<open>0x2F\<close>, \<open>7\<close> through \<open>prefixedState\<close> and the address, \<open>7\<close>
  through \<open>ContractState\<close>.
\<close>

theorem contract_scoped_keys_witness:
  "prefixedState_Insert SimulatorState_Mutable (replicate 33 1) (Some empty_state) [7] [9]
     = (None, Some (empty_state\<lparr>data := [replicate 33 1 @ [0x2F, 7] \<mapsto> [9]]\<rparr>))
 \<and> ContractState_Insert (Some empty_state) (replicate 33 1) [7] [9]
     = (None, Some (empty_state\<lparr>data := [replicate 33 1 @ [7] \<mapsto> [9]]\<rparr>))
 \<and> prependAccountToKey (replicate 33 1) [7] \<noteq> prependAccountToKey (replicate 33 2) [7]"
  using contract_scoped_keys [of SimulatorState_Mutable "replicate 33 1" "Some empty_state" "[7]" "[9]"
          "Some empty_state" "replicate 33 2" "[7]"]
  by (simp add: SimulatorState_Mutable_def SimulatorState_Insert_def empty_state_def)

text \<open>
  The simulator's \<open>ContractState\<close> does not put a separator after the address: after
  its insert under \<open>[7]\<close>, the value is stored under the 34-byte key address, \<open>7\<close>,
  nothing is stored under the 35-byte key address, \<open>0x2F\<close>, \<open>7\<close>, and a get with the
  empty key is an error rather than a lookup.
\<close>

theorem ContractState_forwards_without_separator:
  "ContractState_Insert (Some empty_state) (replicate 33 1) [7] [9]
     \<noteq> SimulatorState_Insert (Some empty_state) (replicate 33 1 @ [0x2F] @ [7]) [9]
 \<and> ContractState_Insert (Some empty_state) (replicate 33 1) [7] [9]
     = (None, Some (empty_state\<lparr>data := [replicate 33 1 @ [7] \<mapsto> [9]]\<rparr>))
 \<and> ContractState_GetValue
       (snd (ContractState_Insert (Some empty_state) (replicate 33 1) [7] [9])) (replicate 33 1) [7]
     = Inr (Some [9])
 \<and> SimulatorState_GetValue
       (snd (ContractState_Insert (Some empty_state) (replicate 33 1) [7] [9]))
       (replicate 33 1 @ [0x2F] @ [7])
     = Inr None
 \<and> ContractState_GetValue (Some empty_state) (replicate 33 1) [] = Inl (ErrorString ''empty key'')"
proof -
  have "[replicate 33 (1::byte) @ [7] \<mapsto> [9::byte]] \<noteq> [replicate 33 1 @ [0x2F] @ [7] \<mapsto> [9]]"
  proof
    assume "[replicate 33 (1::byte) @ [7] \<mapsto> [9::byte]] = [replicate 33 1 @ [0x2F] @ [7] \<mapsto> [9]]"
    from this [THEN fun_cong, of "replicate 33 1 @ [7]"] show False
      by simp
  qed
  then show ?thesis
    by (simp add: ContractState_Insert_def ContractState_GetValue_def SimulatorState_Insert_def
                  SimulatorState_GetValue_def empty_state_def)
qed

section \<open>Account contracts in the simulator state\<close>

text \<open>
  \<open>GetAccountContract\<close> declares \<open>var contractID runtime.ContractID\<close>, a nil slice, and
  copies the stored value into \<open>contractID[:]\<close>, which has length 0: nothing is copied
  and the empty identifier is returned whenever the stored value has 32 bytes.
\<close>

lemma set_then_get_account_contract:
  assumes "account \<noteq> []"
  shows "SimulatorState_GetAccountContract
           (snd (SimulatorState_SetAccountContract (Some s) account contractID)) account
         = (if length contractID = 32 then Inr [] else Inl (ErrorString ''invalid contract ID length''))"
  using assms
  by (simp add: SimulatorState_GetAccountContract_def SimulatorState_SetAccountContract_def
                SimulatorState_Insert_def SimulatorState_GetValue_def len_value_def go_copy_def)

text \<open>
  C9. Setting the contract of the account of 33 bytes \<open>1\<close> to the identifier of 32 bytes
  \<open>7\<close> stores the identifier, and getting the contract of that account on the
  resulting state returns the empty identifier, not the one that was set.
\<close>

theorem GetAccountContract_loses_the_id:
  "SimulatorState_SetAccountContract (Some empty_state) (replicate 33 1) (replicate 32 7)
     = (None, Some (empty_state\<lparr>data := [replicate 33 1 \<mapsto> replicate 32 7]\<rparr>))
   \<and> SimulatorState_GetAccountContract
        (snd (SimulatorState_SetAccountContract (Some empty_state) (replicate 33 1) (replicate 32 7)))
        (replicate 33 1) = Inr []
   \<and> (Inr [] :: error + ContractID) \<noteq> Inr (replicate 32 7)"
  by (simp add: SimulatorState_GetAccountContract_def SimulatorState_SetAccountContract_def
                SimulatorState_Insert_def SimulatorState_GetValue_def len_value_def go_copy_def
                empty_state_def)

section \<open>Balance transfers\<close>

lemma bit_byte_slice:
  "bit (push_bit k (ucast (ucast (drop_bit k (v :: uint64)) :: byte)) :: uint64) n
     \<longleftrightarrow> k \<le> n \<and> n < k + 8 \<and> bit v n"
  using bit_imp_le_length [of v n] by (auto simp add: bit_simps)

lemma bit_byte_low:
  "bit (ucast (ucast v :: byte) :: uint64) n \<longleftrightarrow> n < 8 \<and> bit (v :: uint64) n"
  by (auto simp add: bit_simps)

lemma be_word_split:
  "be_word (ucast (drop_bit 56 v)) (ucast (drop_bit 48 v)) (ucast (drop_bit 40 v)) (ucast (drop_bit 32 v))
      (ucast (drop_bit 24 v)) (ucast (drop_bit 16 v)) (ucast (drop_bit 8 v)) (ucast v) = v"
proof (rule bit_word_eqI)
  fix n assume n: "n < LENGTH(64)"
  have "bit (be_word (ucast (drop_bit 56 v)) (ucast (drop_bit 48 v)) (ucast (drop_bit 40 v)) (ucast (drop_bit 32 v))
      (ucast (drop_bit 24 v)) (ucast (drop_bit 16 v)) (ucast (drop_bit 8 v)) (ucast v)) n
     \<longleftrightarrow> (n < 8 \<or> (8 \<le> n \<and> n < 8 + 8) \<or> (16 \<le> n \<and> n < 16 + 8) \<or> (24 \<le> n \<and> n < 24 + 8)
          \<or> (32 \<le> n \<and> n < 32 + 8) \<or> (40 \<le> n \<and> n < 40 + 8) \<or> (48 \<le> n \<and> n < 48 + 8)
          \<or> (56 \<le> n \<and> n < 56 + 8)) \<and> bit v n"
    unfolding be_word_def bit_or_iff bit_byte_slice bit_byte_low by blast
  moreover have "n < 8 \<or> (8 \<le> n \<and> n < 8 + 8) \<or> (16 \<le> n \<and> n < 16 + 8) \<or> (24 \<le> n \<and> n < 24 + 8)
          \<or> (32 \<le> n \<and> n < 32 + 8) \<or> (40 \<le> n \<and> n < 40 + 8) \<or> (48 \<le> n \<and> n < 48 + 8)
          \<or> (56 \<le> n \<and> n < 56 + 8)"
    using n by simp linarith
  ultimately show "bit (be_word (ucast (drop_bit 56 v)) (ucast (drop_bit 48 v)) (ucast (drop_bit 40 v)) (ucast (drop_bit 32 v))
      (ucast (drop_bit 24 v)) (ucast (drop_bit 16 v)) (ucast (drop_bit 8 v)) (ucast v)) n = bit v n"
    by blast
qed

text \<open>
  Balances are stored as eight bytes, most significant first.
\<close>

lemma BigEndian_roundtrip: "BigEndian_Uint64 (BigEndian_PutUint64 v) = Inr v"
  by (simp add: BigEndian_Uint64_def BigEndian_PutUint64_def be_word_split)

lemma balanceKey_inj: "inj addrText \<Longrightarrow> balanceKey addrText a = balanceKey addrText b \<longleftrightarrow> a = b"
  by (auto simp: balanceKey_def dest: injD)

lemma GetBalance_upd_same:
  "SimulatorState_GetBalance addrText (Some (st\<lparr>data := (data st)(balanceKey addrText a \<mapsto> BigEndian_PutUint64 v)\<rparr>)) a = Inr v"
  by (simp add: SimulatorState_GetBalance_def BigEndian_roundtrip)

lemma GetBalance_upd_other:
  "balanceKey addrText a \<noteq> k \<Longrightarrow>
   SimulatorState_GetBalance addrText (Some (st\<lparr>data := (data st)(k \<mapsto> w)\<rparr>)) a
     = SimulatorState_GetBalance addrText (Some st) a"
  by (simp add: SimulatorState_GetBalance_def)

lemma TransferBalance_mint:
  assumes "SimulatorState_GetBalance addrText (Some s) to = Inr tb"
  shows "SimulatorState_TransferBalance addrText (Some s) EmptyAddress to amount
           = (None, Some (s\<lparr>data := (data s)(balanceKey addrText to \<mapsto> BigEndian_PutUint64 (tb + amount))\<rparr>))"
  using assms by (simp add: SimulatorState_TransferBalance_def)

lemma TransferBalance_mint_never_insufficient:
  "fst (SimulatorState_TransferBalance addrText sp EmptyAddress to amount)
     \<noteq> Some (ErrorString ''insufficient balance'')"
proof (cases sp)
  case None
  then show ?thesis by (simp add: SimulatorState_TransferBalance_def)
next
  case (Some s)
  show ?thesis
  proof (cases "data s (balanceKey addrText to)")
    case None
    with Some show ?thesis
      by (simp add: SimulatorState_TransferBalance_def SimulatorState_GetBalance_def)
  next
    case (Some v)
    with \<open>sp = Some s\<close> show ?thesis
      by (cases "BigEndian_Uint64 v")
         (auto simp: SimulatorState_TransferBalance_def SimulatorState_GetBalance_def
                     BigEndian_Uint64_def split: list.splits)
  qed
qed

lemma TransferBalance_insufficient:
  assumes "from \<noteq> EmptyAddress"
      and "SimulatorState_GetBalance addrText (Some s) from = Inr fb"
      and "fb < amount"
  shows "SimulatorState_TransferBalance addrText (Some s) from to amount
           = (Some (ErrorString ''insufficient balance''), Some s)"
  using assms by (simp add: SimulatorState_TransferBalance_def)

lemma TransferBalance_move:
  assumes "from \<noteq> EmptyAddress"
      and "SimulatorState_GetBalance addrText (Some s) from = Inr fb"
      and "amount \<le> fb"
      and "balanceKey addrText from \<noteq> balanceKey addrText to"
      and "SimulatorState_GetBalance addrText (Some s) to = Inr tb"
  shows "SimulatorState_TransferBalance addrText (Some s) from to amount
           = (None, Some (s\<lparr>data := (data s)
                  (balanceKey addrText from \<mapsto> BigEndian_PutUint64 (fb - amount),
                   balanceKey addrText to \<mapsto> BigEndian_PutUint64 (tb + amount))\<rparr>))"
proof -
  let ?s1 = "s\<lparr>data := (data s)(balanceKey addrText from \<mapsto> BigEndian_PutUint64 (fb - amount))\<rparr>"
  have "SimulatorState_GetBalance addrText (Some ?s1) to = Inr tb"
    using assms(4,5) by (simp add: GetBalance_upd_other)
  then show ?thesis
    using assms(1,2,3) by (simp add: SimulatorState_TransferBalance_def not_less [symmetric])
qed

lemma TransferBalance_self:
  assumes "from \<noteq> EmptyAddress"
      and "SimulatorState_GetBalance addrText (Some s) from = Inr fb"
      and "amount \<le> fb"
  shows "SimulatorState_TransferBalance addrText (Some s) from from amount
           = (None, Some (s\<lparr>data := (data s)(balanceKey addrText from \<mapsto> BigEndian_PutUint64 fb)\<rparr>))"
proof -
  let ?s1 = "s\<lparr>data := (data s)(balanceKey addrText from \<mapsto> BigEndian_PutUint64 (fb - amount))\<rparr>"
  have "SimulatorState_GetBalance addrText (Some ?s1) from = Inr (fb - amount)"
    by (rule GetBalance_upd_same)
  then show ?thesis
    using assms by (simp add: SimulatorState_TransferBalance_def not_less [symmetric])
qed

text \<open>
  C10. In \<open>SimulatorState.TransferBalance\<close>, a transfer from the empty (all-zero)
  address never fails with "insufficient balance": no source balance is read or
  written, and the destination's balance becomes its old balance plus the amount in
  64-bit arithmetic, that is, modulo \<open>2 ^ 64\<close>. From any other address, the transfer
  fails with "insufficient balance" and leaves the state as it was when the source's
  balance is below the amount; otherwise the source's balance goes down by the
  amount and the destination's goes up by it, and when source and destination are
  the same address the balance is unchanged. Addresses are told apart by their
  textual form, which is assumed injective. \<open>TestStateManager.TransferBalance\<close> has
  no such case: from every address, the empty one included, it fails with
  "insufficient balance" when the balance of that address is below the amount, and
  otherwise deducts the amount from the source and credits it to the destination.
\<close>

theorem SimulatorState_TransferBalance_mint_or_move:
  assumes "inj addrText"
  shows "fst (SimulatorState_TransferBalance addrText sp EmptyAddress to amount)
           \<noteq> Some (ErrorString ''insufficient balance'')
       \<and> (SimulatorState_GetBalance addrText (Some s) to = Inr tb \<longrightarrow>
            (let s' = s\<lparr>data := (data s)(balanceKey addrText to \<mapsto> BigEndian_PutUint64 (tb + amount))\<rparr>
             in SimulatorState_TransferBalance addrText (Some s) EmptyAddress to amount = (None, Some s')
                \<and> SimulatorState_GetBalance addrText (Some s') to = Inr (tb + amount)))
       \<and> (from \<noteq> EmptyAddress \<and> SimulatorState_GetBalance addrText (Some s) from = Inr fb \<and> fb < amount \<longrightarrow>
            SimulatorState_TransferBalance addrText (Some s) from to amount
              = (Some (ErrorString ''insufficient balance''), Some s))
       \<and> (from \<noteq> EmptyAddress \<and> SimulatorState_GetBalance addrText (Some s) from = Inr fb \<and> amount \<le> fb
            \<and> from \<noteq> to \<and> SimulatorState_GetBalance addrText (Some s) to = Inr tb \<longrightarrow>
            (let s' = s\<lparr>data := (data s)
                        (balanceKey addrText from \<mapsto> BigEndian_PutUint64 (fb - amount),
                         balanceKey addrText to \<mapsto> BigEndian_PutUint64 (tb + amount))\<rparr>
             in SimulatorState_TransferBalance addrText (Some s) from to amount = (None, Some s')
                \<and> SimulatorState_GetBalance addrText (Some s') from = Inr (fb - amount)
                \<and> SimulatorState_GetBalance addrText (Some s') to = Inr (tb + amount)
                \<and> unat (fb - amount) = unat fb - unat amount))
       \<and> (from \<noteq> EmptyAddress \<and> SimulatorState_GetBalance addrText (Some s) from = Inr fb \<and> amount \<le> fb \<longrightarrow>
            (let s' = s\<lparr>data := (data s)(balanceKey addrText from \<mapsto> BigEndian_PutUint64 fb)\<rparr>
             in SimulatorState_TransferBalance addrText (Some s) from from amount = (None, Some s')
                \<and> SimulatorState_GetBalance addrText (Some s') from = Inr fb))
       \<and> unat (tb + amount) = (unat tb + unat amount) mod 2 ^ 64
       \<and> TestStateManager_GetBalance b src = Inr (balance_of b src)
       \<and> (balance_of b src < amount \<longrightarrow>
            TestStateManager_TransferBalance b src dst amount
              = (Some (ErrorString ''insufficient balance''), b))
       \<and> (amount \<le> balance_of b src \<longrightarrow>
            TestStateManager_TransferBalance b src dst amount
              = (None, (b(src \<mapsto> balance_of b src - amount))
                         (dst \<mapsto> balance_of (b(src \<mapsto> balance_of b src - amount)) dst + amount)))"
proof (intro conjI impI)
  show "fst (SimulatorState_TransferBalance addrText sp EmptyAddress to amount)
          \<noteq> Some (ErrorString ''insufficient balance'')"
    by (rule TransferBalance_mint_never_insufficient)
next
  assume "SimulatorState_GetBalance addrText (Some s) to = Inr tb"
  then show "let s' = s\<lparr>data := (data s)(balanceKey addrText to \<mapsto> BigEndian_PutUint64 (tb + amount))\<rparr>
             in SimulatorState_TransferBalance addrText (Some s) EmptyAddress to amount = (None, Some s')
                \<and> SimulatorState_GetBalance addrText (Some s') to = Inr (tb + amount)"
    by (simp add: TransferBalance_mint GetBalance_upd_same)
next
  assume "from \<noteq> EmptyAddress \<and> SimulatorState_GetBalance addrText (Some s) from = Inr fb \<and> fb < amount"
  then show "SimulatorState_TransferBalance addrText (Some s) from to amount
              = (Some (ErrorString ''insufficient balance''), Some s)"
    by (simp add: TransferBalance_insufficient)
next
  assume a: "from \<noteq> EmptyAddress \<and> SimulatorState_GetBalance addrText (Some s) from = Inr fb \<and> amount \<le> fb
            \<and> from \<noteq> to \<and> SimulatorState_GetBalance addrText (Some s) to = Inr tb"
  then have k: "balanceKey addrText from \<noteq> balanceKey addrText to"
    using assms by (simp add: balanceKey_inj)
  let ?s1 = "s\<lparr>data := (data s)(balanceKey addrText from \<mapsto> BigEndian_PutUint64 (fb - amount))\<rparr>"
  have f: "SimulatorState_GetBalance addrText
             (Some (?s1\<lparr>data := (data ?s1)(balanceKey addrText to \<mapsto> BigEndian_PutUint64 (tb + amount))\<rparr>)) from
           = Inr (fb - amount)"
    by (simp only: GetBalance_upd_other [OF k] GetBalance_upd_same)
  have t: "SimulatorState_GetBalance addrText
             (Some (?s1\<lparr>data := (data ?s1)(balanceKey addrText to \<mapsto> BigEndian_PutUint64 (tb + amount))\<rparr>)) to
           = Inr (tb + amount)"
    by (rule GetBalance_upd_same)
  from a have u: "unat (fb - amount) = unat fb - unat amount"
    by (simp add: unat_sub)
  from a k f t u
  show "let s' = s\<lparr>data := (data s)
                        (balanceKey addrText from \<mapsto> BigEndian_PutUint64 (fb - amount),
                         balanceKey addrText to \<mapsto> BigEndian_PutUint64 (tb + amount))\<rparr>
             in SimulatorState_TransferBalance addrText (Some s) from to amount = (None, Some s')
                \<and> SimulatorState_GetBalance addrText (Some s') from = Inr (fb - amount)
                \<and> SimulatorState_GetBalance addrText (Some s') to = Inr (tb + amount)
                \<and> unat (fb - amount) = unat fb - unat amount"
    by (simp add: TransferBalance_move)
next
  assume "from \<noteq> EmptyAddress \<and> SimulatorState_GetBalance addrText (Some s) from = Inr fb \<and> amount \<le> fb"
  then show "let s' = s\<lparr>data := (data s)(balanceKey addrText from \<mapsto> BigEndian_PutUint64 fb)\<rparr>
             in SimulatorState_TransferBalance addrText (Some s) from from amount = (None, Some s')
                \<and> SimulatorState_GetBalance addrText (Some s') from = Inr fb"
    by (simp add: TransferBalance_self GetBalance_upd_same)
next
  show "unat (tb + amount) = (unat tb + unat amount) mod 2 ^ 64"
    by (simp add: unat_word_ariths)
next
  show "TestStateManager_GetBalance b src = Inr (balance_of b src)"
    by (simp add: TestStateManager_GetBalance_def balance_of_def split: option.splits)
next
  assume "balance_of b src < amount"
  then show "TestStateManager_TransferBalance b src dst amount
               = (Some (ErrorString ''insufficient balance''), b)"
    by (auto simp: TestStateManager_TransferBalance_def TestStateManager_GetBalance_def balance_of_def
             split: option.splits)
next
  assume "amount \<le> balance_of b src"
  then show "TestStateManager_TransferBalance b src dst amount
               = (None, (b(src \<mapsto> balance_of b src - amount))
                          (dst \<mapsto> balance_of (b(src \<mapsto> balance_of b src - amount)) dst + amount))"
    by (auto simp: TestStateManager_TransferBalance_def TestStateManager_GetBalance_def balance_of_def
                   Let_def
             split: option.splits)
qed

lemma GetBalance_empty_state: "SimulatorState_GetBalance addrText (Some empty_state) a = Inr 0"
  by (simp add: SimulatorState_GetBalance_def empty_state_def)

lemma GetBalance_funded_state:
  "SimulatorState_GetBalance (\<lambda>a. a) (Some funded_state) (replicate 33 2) = Inr 1000"
  "SimulatorState_GetBalance (\<lambda>a. a) (Some funded_state) (replicate 33 1) = Inr 0"
proof -
  show "SimulatorState_GetBalance (\<lambda>a. a) (Some funded_state) (replicate 33 2) = Inr 1000"
    unfolding funded_state_def by (rule GetBalance_upd_same)
  have k: "balanceKey (\<lambda>a. a) (replicate 33 (1 :: byte)) \<noteq> balanceKey (\<lambda>a. a) (replicate 33 2)"
    by (simp add: balanceKey_def)
  show "SimulatorState_GetBalance (\<lambda>a. a) (Some funded_state) (replicate 33 1) = Inr 0"
    unfolding funded_state_def by (simp only: GetBalance_upd_other [OF k] GetBalance_empty_state)
qed

lemma GetBalance_full_state:
  "SimulatorState_GetBalance (\<lambda>a. a) (Some full_state) (replicate 33 1) = Inr 0xFFFFFFFFFFFFFFFF"
  unfolding full_state_def by (rule GetBalance_upd_same)

text \<open>
  Minting 1000 into an empty state; with a balance of 1000, a transfer of 1001 fails
  and a transfer of 400 leaves 600 and 400; a transfer of 400 to oneself leaves 1000;
  minting 2 onto a balance of \<open>2 ^ 64 - 1\<close> leaves 1. In the test double, where one
  account holds 1000: a transfer of 1 from the empty address fails, a transfer of
  1001 from the account fails, and a transfer of 400 leaves 600 and 400.
\<close>

theorem SimulatorState_TransferBalance_mint_or_move_witness:
  "SimulatorState_TransferBalance (\<lambda>a. a) (Some empty_state) EmptyAddress (replicate 33 1) 1000
     = (None, Some (empty_state\<lparr>data := (data empty_state)
          (balanceKey (\<lambda>a. a) (replicate 33 1) \<mapsto> BigEndian_PutUint64 1000)\<rparr>))
   \<and> SimulatorState_TransferBalance (\<lambda>a. a) (Some funded_state) (replicate 33 2) (replicate 33 1) 1001
     = (Some (ErrorString ''insufficient balance''), Some funded_state)
   \<and> SimulatorState_TransferBalance (\<lambda>a. a) (Some funded_state) (replicate 33 2) (replicate 33 1) 400
     = (None, Some (funded_state\<lparr>data := (data funded_state)
          (balanceKey (\<lambda>a. a) (replicate 33 2) \<mapsto> BigEndian_PutUint64 600,
           balanceKey (\<lambda>a. a) (replicate 33 1) \<mapsto> BigEndian_PutUint64 400)\<rparr>))
   \<and> SimulatorState_TransferBalance (\<lambda>a. a) (Some funded_state) (replicate 33 2) (replicate 33 2) 400
     = (None, Some (funded_state\<lparr>data := (data funded_state)
          (balanceKey (\<lambda>a. a) (replicate 33 2) \<mapsto> BigEndian_PutUint64 1000)\<rparr>))
   \<and> SimulatorState_TransferBalance (\<lambda>a. a) (Some full_state) EmptyAddress (replicate 33 1) 2
     = (None, Some (full_state\<lparr>data := (data full_state)
          (balanceKey (\<lambda>a. a) (replicate 33 1) \<mapsto> BigEndian_PutUint64 1)\<rparr>))
   \<and> TestStateManager_TransferBalance test_balances EmptyAddress (replicate 33 1) 1
     = (Some (ErrorString ''insufficient balance''), test_balances)
   \<and> TestStateManager_TransferBalance test_balances (replicate 33 2) (replicate 33 1) 1001
     = (Some (ErrorString ''insufficient balance''), test_balances)
   \<and> TestStateManager_TransferBalance test_balances (replicate 33 2) (replicate 33 1) 400
     = (None, [replicate 33 2 \<mapsto> 600, replicate 33 1 \<mapsto> 400])"
proof -
  have i: "inj (\<lambda>a :: Address. a)"
    by (simp add: inj_def)
  have n: "replicate 33 (2 :: byte) \<noteq> EmptyAddress" "replicate 33 (2 :: byte) \<noteq> replicate 33 1"
          "EmptyAddress \<noteq> replicate 33 (2 :: byte)" "replicate 33 (1 :: byte) \<noteq> replicate 33 2"
    by (simp_all add: EmptyAddress_def)
  note g = GetBalance_empty_state [of "\<lambda>a. a"] GetBalance_funded_state GetBalance_full_state
  have bo: "balance_of test_balances EmptyAddress = 0" "balance_of test_balances (replicate 33 2) = 1000"
    using n by (simp_all add: balance_of_def test_balances_def)
  note t = SimulatorState_TransferBalance_mint_or_move [OF i]
  note t1 = t [of None "replicate 33 1" 1000 empty_state 0 "replicate 33 2" 0
                  test_balances EmptyAddress "replicate 33 1"]
  note t2 = t [of None "replicate 33 1" 1001 funded_state 0 "replicate 33 2" 1000
                  test_balances "replicate 33 2" "replicate 33 1"]
  note t3 = t [of None "replicate 33 1" 400 funded_state 0 "replicate 33 2" 1000
                  test_balances "replicate 33 2" "replicate 33 1"]
  note t4 = t [of None "replicate 33 1" 2 full_state "0xFFFFFFFFFFFFFFFF" "replicate 33 2" 0
                  test_balances EmptyAddress "replicate 33 1"]
  note t5 = t [of None "replicate 33 1" 1 empty_state 0 "replicate 33 2" 0
                  test_balances EmptyAddress "replicate 33 1"]
  have a1: "SimulatorState_TransferBalance (\<lambda>a. a) (Some empty_state) EmptyAddress (replicate 33 1) 1000
     = (None, Some (empty_state\<lparr>data := (data empty_state)
          (balanceKey (\<lambda>a. a) (replicate 33 1) \<mapsto> BigEndian_PutUint64 1000)\<rparr>))"
    using t1 g(1) by (simp add: Let_def)
  have a2: "SimulatorState_TransferBalance (\<lambda>a. a) (Some funded_state) (replicate 33 2) (replicate 33 1) 1001
     = (Some (ErrorString ''insufficient balance''), Some funded_state)"
    using t2 n(1) g(2) by simp
  have a3: "SimulatorState_TransferBalance (\<lambda>a. a) (Some funded_state) (replicate 33 2) (replicate 33 1) 400
     = (None, Some (funded_state\<lparr>data := (data funded_state)
          (balanceKey (\<lambda>a. a) (replicate 33 2) \<mapsto> BigEndian_PutUint64 600,
           balanceKey (\<lambda>a. a) (replicate 33 1) \<mapsto> BigEndian_PutUint64 400)\<rparr>))"
    using t3 n(1,2) g(2,3) by (simp add: Let_def)
  have a4: "SimulatorState_TransferBalance (\<lambda>a. a) (Some funded_state) (replicate 33 2) (replicate 33 2) 400
     = (None, Some (funded_state\<lparr>data := (data funded_state)
          (balanceKey (\<lambda>a. a) (replicate 33 2) \<mapsto> BigEndian_PutUint64 1000)\<rparr>))"
    using t3 n(1) g(2) by (simp add: Let_def)
  have a5: "SimulatorState_TransferBalance (\<lambda>a. a) (Some full_state) EmptyAddress (replicate 33 1) 2
     = (None, Some (full_state\<lparr>data := (data full_state)
          (balanceKey (\<lambda>a. a) (replicate 33 1) \<mapsto> BigEndian_PutUint64 1)\<rparr>))"
  proof -
    have w: "(18446744073709551617 :: uint64) = 1"
      by simp
    from t4 g(4) show ?thesis
      by (simp add: Let_def w)
  qed
  have a6: "TestStateManager_TransferBalance test_balances EmptyAddress (replicate 33 1) 1
     = (Some (ErrorString ''insufficient balance''), test_balances)"
    using t5 bo(1) by simp
  have a7: "TestStateManager_TransferBalance test_balances (replicate 33 2) (replicate 33 1) 1001
     = (Some (ErrorString ''insufficient balance''), test_balances)"
    using t2 bo(2) by simp
  have b1: "balance_of (test_balances(replicate 33 2 \<mapsto> 600)) (replicate 33 1) = 0"
    using n(4) by (simp add: balance_of_def test_balances_def)
  have a8: "TestStateManager_TransferBalance test_balances (replicate 33 2) (replicate 33 1) 400
     = (None, [replicate 33 2 \<mapsto> 600, replicate 33 1 \<mapsto> 400])"
    using t3 bo(2) b1 by (simp add: test_balances_def)
  from a1 a2 a3 a4 a5 a6 a7 a8 show ?thesis
    by blast
qed

text \<open>
  \<open>TestStateManager.TransferBalance\<close> has no minting case: the empty address is an
  account like any other, its balance in an empty map is 0, and a transfer of 1 from
  it fails with "insufficient balance", where the simulator's transfer succeeds.
\<close>

theorem TestStateManager_TransferBalance_does_not_mint:
  "TestStateManager_GetBalance Map.empty EmptyAddress = Inr 0
 \<and> TestStateManager_TransferBalance Map.empty EmptyAddress (replicate 33 1) 1
     = (Some (ErrorString ''insufficient balance''), Map.empty)
 \<and> fst (SimulatorState_TransferBalance (\<lambda>a. a) (Some empty_state) EmptyAddress (replicate 33 1) 1) = None"
  by (simp add: TestStateManager_TransferBalance_def TestStateManager_GetBalance_def
                TransferBalance_mint [OF GetBalance_empty_state])

section \<open>Calls: the value transfer\<close>

lemma call_transfer_fails:
  assumes "0 < Value callInfo"
      and "GetFuel (store m) = Inr remaining"
      and "TransferBalance sm (state m) (Actor callInfo) (Contract callInfo) (Value callInfo) = (Some err, s')"
  shows "call sm inst callInfo m
           = (Inl err, m\<lparr>store := (store m)\<lparr>fuel_cell := Some (remaining + Fuel callInfo)\<rparr>,
                         state := s'\<rparr>)"
  using assms
  by (auto simp: call_def GetFuel_def SetFuel_def split: option.splits)

lemma borsh_u8_array_id: "borsh_u8_array a = a"
  by (induction a) (simp_all add: borsh_u8_array_def)

lemma customSerialize_layout:
  "customSerialize c b
     = (None, b @ ctxContract c @ ctxActor c @ borsh_u64 (ctxHeight c) @ borsh_u64 (ctxTimestamp c)
              @ ctxActionID c)"
  by (simp add: customSerialize_def borsh_u8_array_id)

lemma call_transfer_succeeds:
  assumes "0 < Value callInfo"
      and "GetFuel (store m) = Inr remaining"
      and "TransferBalance sm (state m) (Actor callInfo) (Contract callInfo) (Value callInfo) = (None, s')"
  shows "call sm inst callInfo m = call sm inst (callInfo\<lparr>Value := 0\<rparr>) (m\<lparr>state := s'\<rparr>)"
  using assms
  by (auto simp: call_def GetFuel_def SetFuel_def customSerialize_layout Let_def
           split: option.splits cong: prod.case_cong sum.case_cong option.case_cong)

lemma CallContract_transfer_fails:
  assumes "0 < Value callInfo"
      and "GetAccountContract sm s (Contract callInfo) = Inr contractID"
      and "getModule eng sm r s contractID = (Inr contractModule, r')"
      and "getInstance eng contractModule = Inr (inst, p)"
      and "GetFuel (store p) = Inr remaining"
      and "TransferBalance sm s (Actor callInfo) (Contract callInfo) (Value callInfo) = (Some err, s')"
  shows "CallContract eng sm r callInfo s
           = (Inl err, r', s',
              Some \<lparr>store = (store p)\<lparr>fuel_cell := Some (remaining + Fuel callInfo)\<rparr>, result = result p\<rparr>)"
proof -
  let ?m = "\<lparr>store = store p, result = result p, state = s\<rparr>"
  have "call sm inst callInfo ?m
          = (Inl err, ?m\<lparr>store := (store ?m)\<lparr>fuel_cell := Some (remaining + Fuel callInfo)\<rparr>,
                         state := s'\<rparr>)"
    using assms(1,5,6) by (intro call_transfer_fails) simp_all
  then show ?thesis
    using assms(2,3,4) by (simp add: CallContract_def)
qed

text \<open>
  C1. In a call with \<open>Value > 0\<close> the transfer of \<open>Value\<close> from the actor to the
  contract is attempted first. When it fails, \<open>call\<close> returns the transfer's error
  and the machine is the one it started from but for the fuel already added to the
  store and the state the failed transfer returned: the linear memory and the result
  buffer are untouched, and no export of the instance is looked up or run (the
  outcome is the same for every instance). When it succeeds, the call goes on exactly
  as a call without value on the state the transfer produced. \<open>CallContract\<close>, once
  it has found the contract's module and instantiated it, returns that same error
  when the transfer fails, with the state the failed transfer returned.
\<close>

theorem call_transfers_before_guest_code:
  assumes "0 < Value callInfo"
      and "GetFuel (store m) = Inr remaining"
  shows "(TransferBalance sm (state m) (Actor callInfo) (Contract callInfo) (Value callInfo) = (Some err, s')
            \<longrightarrow> call sm inst callInfo m
                  = (Inl err, m\<lparr>store := (store m)\<lparr>fuel_cell := Some (remaining + Fuel callInfo)\<rparr>,
                                state := s'\<rparr>))
       \<and> (TransferBalance sm (state m) (Actor callInfo) (Contract callInfo) (Value callInfo) = (None, s')
            \<longrightarrow> call sm inst callInfo m = call sm inst (callInfo\<lparr>Value := 0\<rparr>) (m\<lparr>state := s'\<rparr>))
       \<and> (GetAccountContract sm (state m) (Contract callInfo) = Inr contractID
            \<and> getModule eng sm r (state m) contractID = (Inr contractModule, r')
            \<and> getInstance eng contractModule = Inr (inst, \<lparr>store = store m, result = result m\<rparr>)
            \<and> TransferBalance sm (state m) (Actor callInfo) (Contract callInfo) (Value callInfo)
                 = (Some err, s')
            \<longrightarrow> CallContract eng sm r callInfo (state m)
                  = (Inl err, r', s',
                     Some \<lparr>store = (store m)\<lparr>fuel_cell := Some (remaining + Fuel callInfo)\<rparr>,
                           result = result m\<rparr>))"
proof (intro conjI impI)
  assume "TransferBalance sm (state m) (Actor callInfo) (Contract callInfo) (Value callInfo) = (Some err, s')"
  with assms show "call sm inst callInfo m
                     = (Inl err, m\<lparr>store := (store m)\<lparr>fuel_cell := Some (remaining + Fuel callInfo)\<rparr>,
                                   state := s'\<rparr>)"
    by (rule call_transfer_fails)
next
  assume "TransferBalance sm (state m) (Actor callInfo) (Contract callInfo) (Value callInfo) = (None, s')"
  with assms show "call sm inst callInfo m = call sm inst (callInfo\<lparr>Value := 0\<rparr>) (m\<lparr>state := s'\<rparr>)"
    by (rule call_transfer_succeeds)
next
  assume a: "GetAccountContract sm (state m) (Contract callInfo) = Inr contractID
            \<and> getModule eng sm r (state m) contractID = (Inr contractModule, r')
            \<and> getInstance eng contractModule = Inr (inst, \<lparr>store = store m, result = result m\<rparr>)
            \<and> TransferBalance sm (state m) (Actor callInfo) (Contract callInfo) (Value callInfo)
                 = (Some err, s')"
  have g: "GetFuel (store \<lparr>store = store m, result = result m\<rparr>) = Inr remaining"
    using assms(2) by simp
  from a have a1: "GetAccountContract sm (state m) (Contract callInfo) = Inr contractID"
    and a2: "getModule eng sm r (state m) contractID = (Inr contractModule, r')"
    and a3: "getInstance eng contractModule = Inr (inst, \<lparr>store = store m, result = result m\<rparr>)"
    and a4: "TransferBalance sm (state m) (Actor callInfo) (Contract callInfo) (Value callInfo) = (Some err, s')"
    by simp_all
  from CallContract_transfer_fails [OF assms(1) a1 a2 a3 g a4]
  show "CallContract eng sm r callInfo (state m)
          = (Inl err, r', s',
             Some \<lparr>store = (store m)\<lparr>fuel_cell := Some (remaining + Fuel callInfo)\<rparr>,
                   result = result m\<rparr>)"
    by simp
qed

lemma GetBalance_deployed_state:
  "SimulatorState_GetBalance (\<lambda>a. a) (Some deployed_state) a
     = SimulatorState_GetBalance (\<lambda>a. a) (Some funded_state) a"
proof -
  have k: "balanceKey (\<lambda>a. a) a \<noteq> replicate 33 1"
    by (simp add: balanceKey_def Cons_replicate_eq)
  show ?thesis
    using k by (simp add: SimulatorState_GetBalance_def deployed_state_def)
qed

text \<open>
  The actor holds 1000. A call with value 2000 fails with "insufficient balance",
  the memory still all zero; a call with value 400 continues as the call without
  value on the state where the actor holds 600 and the contract 400. \<open>CallContract\<close>
  with value 2000 on a deployed contract fails with "insufficient balance" and
  leaves the state as it was.
\<close>

theorem call_transfers_before_guest_code_witness:
  "call (SimulatorState_StateManager (\<lambda>a. a)) no_exports (paying_call 2000) funded_machine
     = (Inl (ErrorString ''insufficient balance''),
        funded_machine\<lparr>store := \<lparr>fuel_cell = Some 1000, memory_data = replicate 128 0\<rparr>\<rparr>)
 \<and> call (SimulatorState_StateManager (\<lambda>a. a)) no_exports (paying_call 400) funded_machine
     = call (SimulatorState_StateManager (\<lambda>a. a)) no_exports (paying_call 0)
         (funded_machine\<lparr>state := Some (funded_state\<lparr>data := (data funded_state)
              (balanceKey (\<lambda>a. a) (replicate 33 2) \<mapsto> BigEndian_PutUint64 600,
               balanceKey (\<lambda>a. a) (replicate 33 1) \<mapsto> BigEndian_PutUint64 400)\<rparr>)\<rparr>)
 \<and> CallContract cached_engine (SimulatorState_StateManager (\<lambda>a. a))
       \<lparr>contractCache = (), limits = DefaultResourceLimits\<rparr> (paying_call 2000) (Some deployed_state)
     = (Inl (ErrorString ''insufficient balance''),
        \<lparr>contractCache = (), limits = DefaultResourceLimits\<rparr>, Some deployed_state,
        Some \<lparr>store = \<lparr>fuel_cell = Some 1000, memory_data = replicate 128 0\<rparr>, result = []\<rparr>)"
proof -
  let ?sm = "SimulatorState_StateManager (\<lambda>a. a)"
  let ?r = "\<lparr>contractCache = (), limits = DefaultResourceLimits\<rparr>"
  have g: "GetFuel (store funded_machine) = Inr 0" "GetFuel (store deployed_machine) = Inr 0"
    by (simp_all add: GetFuel_def funded_machine_def deployed_machine_def)
  have v: "0 < Value (paying_call 2000)" "0 < Value (paying_call 400)"
    by (simp_all add: paying_call_def)
  have n: "replicate 33 (2 :: byte) \<noteq> EmptyAddress"
    by (simp add: EmptyAddress_def)
  have k: "balanceKey (\<lambda>a. a) (replicate 33 (2 :: byte)) \<noteq> balanceKey (\<lambda>a. a) (replicate 33 1)"
    by (simp add: balanceKey_def)
  have t1: "TransferBalance ?sm (state funded_machine)
              (Actor (paying_call 2000)) (Contract (paying_call 2000)) (Value (paying_call 2000))
            = (Some (ErrorString ''insufficient balance''), Some funded_state)"
    using TransferBalance_insufficient [OF n GetBalance_funded_state(1), of 2000 "replicate 33 1"]
    by (simp add: SimulatorState_StateManager_def funded_machine_def paying_call_def)
  have t2: "TransferBalance ?sm (state funded_machine)
              (Actor (paying_call 400)) (Contract (paying_call 400)) (Value (paying_call 400))
            = (None, Some (funded_state\<lparr>data := (data funded_state)
                  (balanceKey (\<lambda>a. a) (replicate 33 2) \<mapsto> BigEndian_PutUint64 600,
                   balanceKey (\<lambda>a. a) (replicate 33 1) \<mapsto> BigEndian_PutUint64 400)\<rparr>))"
    using TransferBalance_move [OF n GetBalance_funded_state(1) _ k GetBalance_funded_state(2), of 400]
    by (simp add: SimulatorState_StateManager_def funded_machine_def paying_call_def)
  have gb: "SimulatorState_GetBalance (\<lambda>a. a) (Some deployed_state) (replicate 33 2) = Inr 1000"
    by (simp only: GetBalance_deployed_state GetBalance_funded_state(1))
  have t3: "TransferBalance ?sm (state deployed_machine)
              (Actor (paying_call 2000)) (Contract (paying_call 2000)) (Value (paying_call 2000))
            = (Some (ErrorString ''insufficient balance''), Some deployed_state)"
    using TransferBalance_insufficient [OF n gb, of 2000 "replicate 33 1"]
    by (simp add: SimulatorState_StateManager_def deployed_machine_def paying_call_def)
  have c1: "GetAccountContract ?sm (state deployed_machine) (Contract (paying_call 2000)) = Inr []"
    by (simp add: SimulatorState_StateManager_def deployed_machine_def paying_call_def
                  SimulatorState_GetAccountContract_def SimulatorState_GetValue_def deployed_state_def
                  len_value_def go_copy_def)
  have c2: "getModule cached_engine ?sm ?r (state deployed_machine) [] = (Inr three_functions, ?r)"
    by (simp add: getModule_def cached_engine_def)
  have c3: "getInstance cached_engine three_functions
              = Inr (no_exports, \<lparr>store = store deployed_machine, result = result deployed_machine\<rparr>)"
    by (simp add: getInstance_def cached_engine_def deployed_machine_def funded_machine_def)
  have s: "state deployed_machine = Some deployed_state"
          "store deployed_machine = \<lparr>fuel_cell = Some 0, memory_data = replicate 128 0\<rparr>"
          "result deployed_machine = []" "Fuel (paying_call 2000) = 1000"
    by (simp_all add: deployed_machine_def funded_machine_def paying_call_def)
  note t = call_transfers_before_guest_code
  have a1: "call ?sm no_exports (paying_call 2000) funded_machine
     = (Inl (ErrorString ''insufficient balance''),
        funded_machine\<lparr>store := \<lparr>fuel_cell = Some 1000, memory_data = replicate 128 0\<rparr>\<rparr>)"
    using t [OF v(1) g(1), where sm = ?sm and err = "ErrorString ''insufficient balance''"
               and s' = "Some funded_state" and inst = no_exports and contractID = "[]"
               and eng = cached_engine and r = ?r and r' = ?r and contractModule = three_functions] t1
    by (simp add: funded_machine_def paying_call_def)
  have a2: "call ?sm no_exports (paying_call 400) funded_machine
     = call ?sm no_exports (paying_call 0)
         (funded_machine\<lparr>state := Some (funded_state\<lparr>data := (data funded_state)
              (balanceKey (\<lambda>a. a) (replicate 33 2) \<mapsto> BigEndian_PutUint64 600,
               balanceKey (\<lambda>a. a) (replicate 33 1) \<mapsto> BigEndian_PutUint64 400)\<rparr>)\<rparr>)"
    using t [OF v(2) g(1), where sm = ?sm and err = "ErrorString ''insufficient balance''"
               and s' = "Some (funded_state\<lparr>data := (data funded_state)
                  (balanceKey (\<lambda>a. a) (replicate 33 2) \<mapsto> BigEndian_PutUint64 600,
                   balanceKey (\<lambda>a. a) (replicate 33 1) \<mapsto> BigEndian_PutUint64 400)\<rparr>)"
               and inst = no_exports and contractID = "[]"
               and eng = cached_engine and r = ?r and r' = ?r and contractModule = three_functions] t2
    by (simp add: funded_machine_def paying_call_def)
  have "CallContract cached_engine ?sm ?r (paying_call 2000) (state deployed_machine)
     = (Inl (ErrorString ''insufficient balance''), ?r, Some deployed_state,
        Some \<lparr>store = (store deployed_machine)\<lparr>fuel_cell := Some (0 + Fuel (paying_call 2000))\<rparr>,
              result = result deployed_machine\<rparr>)"
    using t [OF v(1) g(2), where sm = ?sm and err = "ErrorString ''insufficient balance''"
               and s' = "Some deployed_state" and inst = no_exports and contractID = "[]"
               and eng = cached_engine and r = ?r and r' = ?r and contractModule = three_functions]
          t3 c1 c2 c3
    by blast
  then have a3: "CallContract cached_engine ?sm ?r (paying_call 2000) (Some deployed_state)
     = (Inl (ErrorString ''insufficient balance''), ?r, Some deployed_state,
        Some \<lparr>store = \<lparr>fuel_cell = Some 1000, memory_data = replicate 128 0\<rparr>, result = []\<rparr>)"
    unfolding s by simp
  from a1 a2 a3 show ?thesis
    by blast
qed

section \<open>Calls: the parameter buffer\<close>

lemma unat_byte_of: "unat (ucast (drop_bit k (v :: uint64)) :: byte) = unat v div 2 ^ k mod 256"
  unfolding unsigned_ucast_eq unat_drop_bit_eq
  by (simp add: take_bit_eq_mod drop_bit_eq_div)

lemma le_step: "le_value (b # bs) = unat b + 256 * le_value bs"
  by (simp add: le_value_def)

lemma le_nil: "le_value [] = 0"
  by (simp add: le_value_def)

lemma byte_step: "(x :: nat) div 2 ^ k mod 256 + 256 * (x div 2 ^ (k + 8)) = x div 2 ^ k"
proof -
  have "x div 2 ^ (k + 8) = x div 2 ^ k div 256"
    by (simp add: power_add div_mult2_eq)
  then show ?thesis
    by simp
qed

text \<open>
  The eight bytes \<open>borsh\<close> writes for a \<open>uint64\<close> are its bytes from the least
  significant to the most significant: read least significant byte first they give
  back the number.
\<close>

lemma le_value_u64:
  "le_value [ucast (v :: uint64), ucast (drop_bit 8 v), ucast (drop_bit 16 v), ucast (drop_bit 24 v),
             ucast (drop_bit 32 v), ucast (drop_bit 40 v), ucast (drop_bit 48 v), ucast (drop_bit 56 v)]
     = unat v"
proof -
  define x where "x = unat v"
  have b: "x < 2 ^ 64"
    using unsigned_less [of v, where 'a = nat] by (simp add: x_def)
  have z: "unat (ucast v :: byte) = x div 2 ^ 0 mod 256"
    using unat_byte_of [of 0 v] by (simp add: x_def)
  have s: "x div 2 ^ k mod 256 + 256 * (x div 2 ^ (k + 8)) = x div 2 ^ k" for k
    by (rule byte_step)
  have e: "x div 2 ^ 64 = 0"
    using b by simp
  have "le_value [ucast v, ucast (drop_bit 8 v), ucast (drop_bit 16 v), ucast (drop_bit 24 v),
             ucast (drop_bit 32 v), ucast (drop_bit 40 v), ucast (drop_bit 48 v), ucast (drop_bit 56 v)]
        = x div 2 ^ 0 mod 256 + 256 * (x div 2 ^ 8 mod 256 + 256 * (x div 2 ^ 16 mod 256
          + 256 * (x div 2 ^ 24 mod 256 + 256 * (x div 2 ^ 32 mod 256
          + 256 * (x div 2 ^ 40 mod 256 + 256 * (x div 2 ^ 48 mod 256
          + 256 * (x div 2 ^ 56 mod 256 + 256 * 0)))))))"
    unfolding le_step le_nil z unat_byte_of x_def [symmetric] ..
  also have "\<dots> = x div 2 ^ 0"
    using s [of 0] s [of 8] s [of 16] s [of 24] s [of 32] s [of 40] s [of 48] s [of 56] e
    by (simp only: add_0 numeral_plus_numeral arith_simps)
  finally show ?thesis
    by (simp add: x_def)
qed

lemma borsh_u64_little_endian: "length (borsh_u64 v) = 8 \<and> le_value (borsh_u64 v) = unat v"
  by (simp add: borsh_u64_def le_value_u64)

lemma length_go_copy: "length (go_copy dst src) = length dst"
  by (simp add: go_copy_def min_def)

lemma length_copy_at: "off \<le> length dst \<Longrightarrow> length (copy_at dst off src) = length dst"
  by (simp add: copy_at_def length_go_copy)

lemma copy_at_reads_back:
  "off + length src \<le> length dst \<Longrightarrow> take (length src) (drop off (copy_at dst off src)) = src"
  by (simp add: copy_at_fits)

lemma writeToMemory_Inr:
  assumes "writeToMemory inst m dat = (Inr off, m')"
  shows "\<exists>allocFn m1. inst AllocName = Some (ExternFunc allocFn) \<and> inst MemoryName = Some ExternMemory
           \<and> allocFn m (of_nat (length dat)) = (Inr (I32 off), m1)
           \<and> unat off \<le> length (memory_data (store m1))
           \<and> m' = m1\<lparr>store := (store m1)\<lparr>memory_data := copy_at (memory_data (store m1)) (unat off) dat\<rparr>\<rparr>"
  using assms
  by (auto simp: writeToMemory_def Let_def not_less
           split: option.splits Extern.splits prod.splits sum.splits Val.splits if_splits)

lemma writeToMemory_buffer:
  assumes "writeToMemory inst m dat = (Inr off, m')"
      and "unat off + length dat \<le> length (memory_data (store m'))"
  shows "take (length dat) (drop (unat off) (memory_data (store m'))) = dat"
proof -
  from writeToMemory_Inr [OF assms(1)] obtain m1 where
    le: "unat off \<le> length (memory_data (store m1))" and
    m': "m' = m1\<lparr>store := (store m1)\<lparr>memory_data := copy_at (memory_data (store m1)) (unat off) dat\<rparr>\<rparr>"
    by blast
  from m' le have "length (memory_data (store m')) = length (memory_data (store m1))"
    by (simp add: length_copy_at)
  with assms(2) have "unat off + length dat \<le> length (memory_data (store m1))"
    by simp
  then show ?thesis
    by (simp add: m' copy_at_reads_back)
qed

lemma length_borsh_u64: "length (borsh_u64 v) = 8"
  by (simp add: borsh_u64_def)

lemma length_ContextPrefix:
  "length (Contract ci) = 33 \<Longrightarrow> length (Actor ci) = 33 \<Longrightarrow> length (ActionID ci) = 32 \<Longrightarrow>
   length (ContextPrefix ci) = 114"
  by (simp add: ContextPrefix_def length_borsh_u64)

lemma call_reaches_function:
  assumes "GetFuel (store m) = Inr remaining"
      and "(if 0 < Value ci then TransferBalance sm (state m) (Actor ci) (Contract ci) (Value ci)
            else (None, state m)) = (None, s')"
      and "writeToMemory inst
             (m\<lparr>store := (store m)\<lparr>fuel_cell := Some (remaining + Fuel ci)\<rparr>, state := s'\<rparr>)
             (ContextPrefix ci @ Params ci) = (Inr off, m3)"
      and "GetFunc inst (FunctionName ci) = Some f"
  shows "call sm inst ci m
          = (case f m3 off of (Inl err, m4) \<Rightarrow> (Inl err, m4) | (Inr _, m4) \<Rightarrow> (Inr (result m4), m4))"
proof -
  from assms(1) have fc: "fuel_cell (store m) = Some remaining"
    by (simp add: GetFuel_def split: option.splits)
  have ser: "customSerialize \<lparr>ctxContract = Contract ci, ctxActor = Actor ci, ctxHeight = Height ci,
                ctxTimestamp = Timestamp ci, ctxActionID = ActionID ci\<rparr> [] = (None, ContextPrefix ci)"
    by (simp add: customSerialize_layout ContextPrefix_def)
  show ?thesis
    unfolding call_def
    by (simp add: assms(1) SetFuel_def fc assms(2) ser Let_def assms(3) assms(4))
qed

text \<open>
  C4. When the transfer (if any) has succeeded, the allocation has returned \<open>off\<close> and
  the region of \<open>114 + length Params\<close> bytes at \<open>off\<close> lies within the linear memory,
  the function named by the call is invoked with the single argument \<open>off\<close> on a
  memory that holds, from \<open>off\<close> on: the contract address (33 bytes), the actor
  address (33 bytes), the height and then the timestamp, each as eight bytes of which
  byte \<open>i\<close> is bits \<open>8 i\<close> to \<open>8 i + 7\<close> of the number (little-endian: read least
  significant byte first, the eight bytes give the number), the action id (32 bytes),
  and then the caller's parameter bytes. The context prefix is 114 bytes long.
\<close>

theorem call_passes_context_then_params:
  assumes "length (Contract ci) = 33" and "length (Actor ci) = 33" and "length (ActionID ci) = 32"
      and "GetFuel (store m) = Inr remaining"
      and "(if 0 < Value ci then TransferBalance sm (state m) (Actor ci) (Contract ci) (Value ci)
            else (None, state m)) = (None, s')"
      and "writeToMemory inst
             (m\<lparr>store := (store m)\<lparr>fuel_cell := Some (remaining + Fuel ci)\<rparr>, state := s'\<rparr>)
             (ContextPrefix ci @ Params ci) = (Inr off, m3)"
      and "GetFunc inst (FunctionName ci) = Some f"
      and "unat off + (114 + length (Params ci)) \<le> length (memory_data (store m3))"
  shows "call sm inst ci m
           = (case f m3 off of (Inl err, m4) \<Rightarrow> (Inl err, m4) | (Inr _, m4) \<Rightarrow> (Inr (result m4), m4))
       \<and> (\<exists>hb tb. length hb = 8 \<and> le_value hb = unat (Height ci)
              \<and> length tb = 8 \<and> le_value tb = unat (Timestamp ci)
              \<and> hb = [ucast (Height ci), ucast (drop_bit 8 (Height ci)), ucast (drop_bit 16 (Height ci)),
                      ucast (drop_bit 24 (Height ci)), ucast (drop_bit 32 (Height ci)),
                      ucast (drop_bit 40 (Height ci)), ucast (drop_bit 48 (Height ci)),
                      ucast (drop_bit 56 (Height ci))]
              \<and> tb = [ucast (Timestamp ci), ucast (drop_bit 8 (Timestamp ci)),
                      ucast (drop_bit 16 (Timestamp ci)), ucast (drop_bit 24 (Timestamp ci)),
                      ucast (drop_bit 32 (Timestamp ci)), ucast (drop_bit 40 (Timestamp ci)),
                      ucast (drop_bit 48 (Timestamp ci)), ucast (drop_bit 56 (Timestamp ci))]
              \<and> take (114 + length (Params ci)) (drop (unat off) (memory_data (store m3)))
                  = Contract ci @ Actor ci @ hb @ tb @ ActionID ci @ Params ci
              \<and> length (Contract ci @ Actor ci @ hb @ tb @ ActionID ci) = 114)"
proof -
  have len: "length (ContextPrefix ci) = 114"
    using assms(1-3) by (rule length_ContextPrefix)
  have "take (length (ContextPrefix ci @ Params ci)) (drop (unat off) (memory_data (store m3)))
          = ContextPrefix ci @ Params ci"
    using assms(6) assms(8) len by (intro writeToMemory_buffer) simp_all
  then have "take (114 + length (Params ci)) (drop (unat off) (memory_data (store m3)))
          = ContextPrefix ci @ Params ci"
    using len by simp
  then have buf: "take (114 + length (Params ci)) (drop (unat off) (memory_data (store m3)))
          = Contract ci @ Actor ci @ borsh_u64 (Height ci) @ borsh_u64 (Timestamp ci) @ ActionID ci
            @ Params ci"
    by (simp only: ContextPrefix_def append_assoc)
  have l: "length (Contract ci @ Actor ci @ borsh_u64 (Height ci) @ borsh_u64 (Timestamp ci)
                   @ ActionID ci) = 114"
    using len by (simp add: ContextPrefix_def)
  have c: "call sm inst ci m
           = (case f m3 off of (Inl err, m4) \<Rightarrow> (Inl err, m4) | (Inr _, m4) \<Rightarrow> (Inr (result m4), m4))"
    by (rule call_reaches_function [OF assms(4) assms(5) assms(6) assms(7)])
  have e: "\<exists>hb tb. length hb = 8 \<and> le_value hb = unat (Height ci)
              \<and> length tb = 8 \<and> le_value tb = unat (Timestamp ci)
              \<and> hb = [ucast (Height ci), ucast (drop_bit 8 (Height ci)), ucast (drop_bit 16 (Height ci)),
                      ucast (drop_bit 24 (Height ci)), ucast (drop_bit 32 (Height ci)),
                      ucast (drop_bit 40 (Height ci)), ucast (drop_bit 48 (Height ci)),
                      ucast (drop_bit 56 (Height ci))]
              \<and> tb = [ucast (Timestamp ci), ucast (drop_bit 8 (Timestamp ci)),
                      ucast (drop_bit 16 (Timestamp ci)), ucast (drop_bit 24 (Timestamp ci)),
                      ucast (drop_bit 32 (Timestamp ci)), ucast (drop_bit 40 (Timestamp ci)),
                      ucast (drop_bit 48 (Timestamp ci)), ucast (drop_bit 56 (Timestamp ci))]
              \<and> take (114 + length (Params ci)) (drop (unat off) (memory_data (store m3)))
                  = Contract ci @ Actor ci @ hb @ tb @ ActionID ci @ Params ci
              \<and> length (Contract ci @ Actor ci @ hb @ tb @ ActionID ci) = 114"
  proof (intro exI conjI)
    show "take (114 + length (Params ci)) (drop (unat off) (memory_data (store m3)))
            = Contract ci @ Actor ci @ borsh_u64 (Height ci) @ borsh_u64 (Timestamp ci) @ ActionID ci
              @ Params ci"
      by (rule buf)
    show "length (Contract ci @ Actor ci @ borsh_u64 (Height ci) @ borsh_u64 (Timestamp ci)
                  @ ActionID ci) = 114"
      by (rule l)
  qed (simp_all add: borsh_u64_little_endian, simp_all add: borsh_u64_def)
  from c e show ?thesis
    by (rule conjI)
qed

lemma length_prefix_paying: "length (ContextPrefix (paying_call 0)) = 114"
  by (rule length_ContextPrefix) (simp_all add: paying_call_def)

lemma echo_write:
  "writeToMemory echo_instance
     (funded_machine\<lparr>store := (store funded_machine)\<lparr>fuel_cell := Some (0 + Fuel (paying_call 0))\<rparr>,
                     state := Some funded_state\<rparr>)
     (ContextPrefix (paying_call 0) @ Params (paying_call 0)) = (Inr 4, written_machine)"
proof -
  have p: "Params (paying_call 0) = [0xAA, 0xBB]" "Fuel (paying_call 0) = 1000"
    by (simp_all add: paying_call_def)
  have c: "copy_at (replicate 128 (0::byte)) 4 (ContextPrefix (paying_call 0) @ [0xAA, 0xBB])
             = replicate 4 0 @ ContextPrefix (paying_call 0) @ [0xAA, 0xBB] @ replicate 8 0"
    by (simp add: copy_at_fits length_prefix_paying)
  show ?thesis
    unfolding p
    by (simp add: writeToMemory_def echo_instance_def AllocName_def MemoryName_def funded_machine_def
                  written_machine_def c)
qed

lemma borsh_u64_numerals:
  "borsh_u64 0x0102030405060708 = [8, 7, 6, 5, 4, 3, 2, 1]"
  "borsh_u64 0x1112131415161718 = [0x18, 0x17, 0x16, 0x15, 0x14, 0x13, 0x12, 0x11]"
  by code_simp+

text \<open>
  An instance whose \<open>alloc\<close> returns 4 and whose entry function returns the two bytes
  it finds 114 bytes after its argument: the call returns the caller's parameters,
  and the height \<open>0x0102030405060708\<close> is in memory as the bytes 8, 7, 6, 5, 4, 3, 2, 1.
\<close>

theorem call_passes_context_then_params_witness:
  "call (SimulatorState_StateManager (\<lambda>a. a)) echo_instance (paying_call 0) funded_machine
     = (Inr [0xAA, 0xBB], written_machine\<lparr>result := [0xAA, 0xBB]\<rparr>)
 \<and> Height (paying_call 0) = 0x0102030405060708 \<and> Timestamp (paying_call 0) = 0x1112131415161718
 \<and> take 116 (drop 4 (memory_data (store written_machine)))
     = replicate 33 1 @ replicate 33 2 @ [8, 7, 6, 5, 4, 3, 2, 1]
       @ [0x18, 0x17, 0x16, 0x15, 0x14, 0x13, 0x12, 0x11] @ replicate 32 3 @ [0xAA, 0xBB]
 \<and> le_value [8, 7, 6, 5, 4, 3, 2, 1] = 0x0102030405060708
 \<and> le_value [0x18, 0x17, 0x16, 0x15, 0x14, 0x13, 0x12, 0x11] = 0x1112131415161718"
proof -
  have l: "length (Contract (paying_call 0)) = 33" "length (Actor (paying_call 0)) = 33"
          "length (ActionID (paying_call 0)) = 32"
    by (simp_all add: paying_call_def)
  have g: "GetFuel (store funded_machine) = Inr 0"
    by (simp add: GetFuel_def funded_machine_def)
  have t: "(if 0 < Value (paying_call 0)
            then TransferBalance (SimulatorState_StateManager (\<lambda>a. a)) (state funded_machine)
                   (Actor (paying_call 0)) (Contract (paying_call 0)) (Value (paying_call 0))
            else (None, state funded_machine)) = (None, Some funded_state)"
    by (simp add: paying_call_def funded_machine_def)
  have f: "GetFunc echo_instance (FunctionName (paying_call 0))
             = Some (\<lambda>m off. (Inr NoVal, m\<lparr>result := take 2 (drop (unat off + 114) (memory_data (store m)))\<rparr>))"
    by (simp add: GetFunc_def echo_instance_def paying_call_def)
  have pl: "length (Params (paying_call 0)) = 2"
    by (simp add: paying_call_def)
  have fit: "unat (4 :: int32) + (114 + length (Params (paying_call 0)))
               \<le> length (memory_data (store written_machine))"
    unfolding pl by (simp add: written_machine_def length_prefix_paying)
  have r: "take 2 (drop (unat (4 :: int32) + 114) (memory_data (store written_machine))) = [0xAA, 0xBB]"
    by (simp add: written_machine_def length_prefix_paying)
  have q: "Contract (paying_call 0) = replicate 33 1" "Actor (paying_call 0) = replicate 33 2"
          "ActionID (paying_call 0) = replicate 32 3" "Params (paying_call 0) = [0xAA, 0xBB]"
    by (simp_all add: paying_call_def)
  have h: "Height (paying_call 0) = 0x0102030405060708" "Timestamp (paying_call 0) = 0x1112131415161718"
    by (simp_all add: paying_call_def)
  from call_passes_context_then_params [OF l g t echo_write f fit]
  obtain hb tb where
    c: "call (SimulatorState_StateManager (\<lambda>a. a)) echo_instance (paying_call 0) funded_machine
          = (case (Inr NoVal, written_machine\<lparr>result := take 2 (drop (unat (4 :: int32) + 114)
                                                   (memory_data (store written_machine)))\<rparr>) of
               (Inl err, m4) \<Rightarrow> (Inl err, m4) | (Inr _, m4) \<Rightarrow> (Inr (result m4), m4))"
    and hv: "le_value hb = unat (Height (paying_call 0))"
    and tv: "le_value tb = unat (Timestamp (paying_call 0))"
    and hb: "hb = [ucast (Height (paying_call 0)), ucast (drop_bit 8 (Height (paying_call 0))),
                   ucast (drop_bit 16 (Height (paying_call 0))), ucast (drop_bit 24 (Height (paying_call 0))),
                   ucast (drop_bit 32 (Height (paying_call 0))), ucast (drop_bit 40 (Height (paying_call 0))),
                   ucast (drop_bit 48 (Height (paying_call 0))), ucast (drop_bit 56 (Height (paying_call 0)))]"
    and tb: "tb = [ucast (Timestamp (paying_call 0)), ucast (drop_bit 8 (Timestamp (paying_call 0))),
                   ucast (drop_bit 16 (Timestamp (paying_call 0))), ucast (drop_bit 24 (Timestamp (paying_call 0))),
                   ucast (drop_bit 32 (Timestamp (paying_call 0))), ucast (drop_bit 40 (Timestamp (paying_call 0))),
                   ucast (drop_bit 48 (Timestamp (paying_call 0))), ucast (drop_bit 56 (Timestamp (paying_call 0)))]"
    and b: "take (114 + length (Params (paying_call 0))) (drop (unat (4 :: int32)) (memory_data (store written_machine)))
              = Contract (paying_call 0) @ Actor (paying_call 0) @ hb @ tb @ ActionID (paying_call 0)
                @ Params (paying_call 0)"
    by blast
  from hb have hb': "hb = [8, 7, 6, 5, 4, 3, 2, 1]"
    unfolding h borsh_u64_def [symmetric] by (simp only: borsh_u64_numerals)
  from tb have tb': "tb = [0x18, 0x17, 0x16, 0x15, 0x14, 0x13, 0x12, 0x11]"
    unfolding h borsh_u64_def [symmetric] by (simp only: borsh_u64_numerals)
  have a1: "call (SimulatorState_StateManager (\<lambda>a. a)) echo_instance (paying_call 0) funded_machine
     = (Inr [0xAA, 0xBB], written_machine\<lparr>result := [0xAA, 0xBB]\<rparr>)"
    using c r by simp
  have a2: "take 116 (drop 4 (memory_data (store written_machine)))
     = replicate 33 1 @ replicate 33 2 @ [8, 7, 6, 5, 4, 3, 2, 1]
       @ [0x18, 0x17, 0x16, 0x15, 0x14, 0x13, 0x12, 0x11] @ replicate 32 3 @ [0xAA, 0xBB]"
    using b unfolding q hb' tb' by simp
  have a3: "le_value [8, 7, 6, 5, 4, 3, 2, 1] = 0x0102030405060708"
    using hv unfolding hb' h by simp
  have a4: "le_value [0x18, 0x17, 0x16, 0x15, 0x14, 0x13, 0x12, 0x11] = 0x1112131415161718"
    using tv unfolding tb' h by simp
  from a1 h a2 a3 a4 show ?thesis
    by blast
qed

lemma ContextPrefix_paying:
  "ContextPrefix (paying_call v)
     = replicate 33 1 @ replicate 33 2 @ [8, 7, 6, 5, 4, 3, 2, 1]
       @ [0x18, 0x17, 0x16, 0x15, 0x14, 0x13, 0x12, 0x11] @ replicate 32 3"
  by (simp add: ContextPrefix_def paying_call_def borsh_u64_numerals)

lemma late_write:
  "writeToMemory late_instance
     (funded_machine\<lparr>store := (store funded_machine)\<lparr>fuel_cell := Some (0 + Fuel (paying_call 0))\<rparr>,
                     state := Some funded_state\<rparr>)
     (ContextPrefix (paying_call 0) @ Params (paying_call 0)) = (Inr 120, truncated_machine)"
proof -
  have p: "Params (paying_call 0) = [0xAA, 0xBB]" "Fuel (paying_call 0) = 1000"
    by (simp_all add: paying_call_def)
  have t: "take 8 (ContextPrefix (paying_call 0)) = replicate 8 1"
    by (simp add: ContextPrefix_paying)
  have c: "copy_at (replicate 128 (0::byte)) 120 (ContextPrefix (paying_call 0) @ [0xAA, 0xBB])
             = replicate 120 0 @ replicate 8 1"
    by (simp add: copy_at_def go_copy_def length_prefix_paying t)
  show ?thesis
    unfolding p
    by (simp add: writeToMemory_def late_instance_def AllocName_def MemoryName_def funded_machine_def
                  truncated_machine_def c)
qed

text \<open>
  The serialized context of that call has 114 bytes, not 106: in the memory the
  call has written, the two bytes at distance 106 from the buffer's start are still
  bytes of the action id, and the parameters start at distance 114. And the buffer
  is complete only when the allocated region fits: with an \<open>alloc\<close> that returns 120
  in a memory of 128 bytes, \<open>copy\<close> writes the first 8 of the 116 bytes, the entry
  function is still invoked with the argument 120, and what it finds there is not
  the context followed by the parameters.
\<close>

theorem context_prefix_has_114_bytes:
  "snd (customSerialize
          \<lparr>ctxContract = replicate 33 1, ctxActor = replicate 33 2, ctxHeight = 0x0102030405060708,
           ctxTimestamp = 0x1112131415161718, ctxActionID = replicate 32 3\<rparr> [])
     = replicate 33 1 @ replicate 33 2 @ [8, 7, 6, 5, 4, 3, 2, 1]
       @ [0x18, 0x17, 0x16, 0x15, 0x14, 0x13, 0x12, 0x11] @ replicate 32 3
 \<and> length (snd (customSerialize
          \<lparr>ctxContract = replicate 33 1, ctxActor = replicate 33 2, ctxHeight = 0x0102030405060708,
           ctxTimestamp = 0x1112131415161718, ctxActionID = replicate 32 3\<rparr> [])) = 114
 \<and> writeToMemory echo_instance
      (funded_machine\<lparr>store := (store funded_machine)\<lparr>fuel_cell := Some (0 + Fuel (paying_call 0))\<rparr>,
                      state := Some funded_state\<rparr>)
      (ContextPrefix (paying_call 0) @ Params (paying_call 0)) = (Inr 4, written_machine)
 \<and> take 2 (drop (4 + 106) (memory_data (store written_machine))) = [3, 3]
 \<and> take 2 (drop (4 + 114) (memory_data (store written_machine))) = Params (paying_call 0)
 \<and> length (memory_data (store funded_machine)) = 128
 \<and> call (SimulatorState_StateManager (\<lambda>a. a)) late_instance (paying_call 0) funded_machine
     = (Inr (replicate 8 1), truncated_machine\<lparr>result := replicate 8 1\<rparr>)
 \<and> memory_data (store truncated_machine) = replicate 120 0 @ replicate 8 1
 \<and> take 116 (drop 120 (memory_data (store truncated_machine)))
     \<noteq> ContextPrefix (paying_call 0) @ Params (paying_call 0)"
proof -
  have s: "snd (customSerialize
          \<lparr>ctxContract = replicate 33 1, ctxActor = replicate 33 2, ctxHeight = 0x0102030405060708,
           ctxTimestamp = 0x1112131415161718, ctxActionID = replicate 32 3\<rparr> [])
     = replicate 33 1 @ replicate 33 2 @ [8, 7, 6, 5, 4, 3, 2, 1]
       @ [0x18, 0x17, 0x16, 0x15, 0x14, 0x13, 0x12, 0x11] @ replicate 32 3"
    by (simp add: customSerialize_def borsh_u8_array_def Let_def borsh_u64_numerals)
  have q: "replicate 32 (3 :: byte) = replicate 24 3 @ [3, 3] @ replicate 6 3"
    by code_simp
  have m: "memory_data (store written_machine)
             = (replicate 4 0 @ replicate 33 1 @ replicate 33 2 @ [8, 7, 6, 5, 4, 3, 2, 1]
                @ [0x18, 0x17, 0x16, 0x15, 0x14, 0x13, 0x12, 0x11] @ replicate 24 3)
               @ [3, 3] @ (replicate 6 3 @ [0xAA, 0xBB] @ replicate 8 0)"
    unfolding written_machine_def ContextPrefix_paying q by simp
  have l: "length (replicate 4 (0 :: byte) @ replicate 33 1 @ replicate 33 2 @ [8, 7, 6, 5, 4, 3, 2, 1]
                   @ [0x18, 0x17, 0x16, 0x15, 0x14, 0x13, 0x12, 0x11] @ replicate 24 3) = 4 + 106"
    by simp
  have a: "take 2 (drop (4 + 106) (memory_data (store written_machine))) = [3, 3]"
    unfolding m using l by (simp del: replicate.simps)
  have pp: "Params (paying_call 0) = [0xAA, 0xBB]"
    by (simp add: paying_call_def)
  have b: "take 2 (drop (4 + 114) (memory_data (store written_machine))) = Params (paying_call 0)"
    unfolding pp by (simp add: written_machine_def length_prefix_paying)
  have g: "GetFuel (store funded_machine) = Inr 0"
    by (simp add: GetFuel_def funded_machine_def)
  have t: "(if 0 < Value (paying_call 0)
            then TransferBalance (SimulatorState_StateManager (\<lambda>a. a)) (state funded_machine)
                   (Actor (paying_call 0)) (Contract (paying_call 0)) (Value (paying_call 0))
            else (None, state funded_machine)) = (None, Some funded_state)"
    by (simp add: paying_call_def funded_machine_def)
  have f: "GetFunc late_instance (FunctionName (paying_call 0))
             = Some (\<lambda>m off. (Inr NoVal, m\<lparr>result := drop (unat off) (memory_data (store m))\<rparr>))"
    by (simp add: GetFunc_def late_instance_def paying_call_def)
  have tm: "memory_data (store truncated_machine) = replicate 120 0 @ replicate 8 1"
    by (simp add: truncated_machine_def)
  have c: "call (SimulatorState_StateManager (\<lambda>a. a)) late_instance (paying_call 0) funded_machine
     = (Inr (replicate 8 1), truncated_machine\<lparr>result := replicate 8 1\<rparr>)"
    using call_reaches_function [OF g t late_write f] by (simp add: tm)
  have l1: "length (take 116 (drop 120 (memory_data (store truncated_machine)))) = 8"
    by (simp add: tm)
  have l2: "length (ContextPrefix (paying_call 0) @ Params (paying_call 0)) = 116"
    by (simp add: length_prefix_paying pp)
  have d: "take 116 (drop 120 (memory_data (store truncated_machine)))
     \<noteq> ContextPrefix (paying_call 0) @ Params (paying_call 0)"
  proof
    assume "take 116 (drop 120 (memory_data (store truncated_machine)))
              = ContextPrefix (paying_call 0) @ Params (paying_call 0)"
    then have "length (take 116 (drop 120 (memory_data (store truncated_machine))))
                 = length (ContextPrefix (paying_call 0) @ Params (paying_call 0))"
      by (rule arg_cong)
    then show False
      unfolding l1 l2 by simp
  qed
  have fm: "length (memory_data (store funded_machine)) = 128"
    by (simp add: funded_machine_def)
  have n: "length (snd (customSerialize
          \<lparr>ctxContract = replicate 33 1, ctxActor = replicate 33 2, ctxHeight = 0x0102030405060708,
           ctxTimestamp = 0x1112131415161718, ctxActionID = replicate 32 3\<rparr> [])) = 114"
    unfolding s by simp
  from s n echo_write a b fm c tm d show ?thesis
    by blast
qed

section \<open>The size of a contract\<close>

lemma of_nat_gt_u32:
  assumes "n < 2 ^ 32"
  shows "(w < (of_nat n :: uint32)) \<longleftrightarrow> unat w < n"
proof -
  have "unat (of_nat n :: uint32) = n"
    using assms by (simp add: unat_of_nat)
  then show ?thesis
    by (simp add: word_less_nat_alt)
qed








section \<open>The count checks\<close>

lemma count_into_filter: "count_into p xs c = c + of_nat (length (filter p xs))"
  by (induction xs arbitrary: c) simp_all

lemma funcCount_nat:
  assumes "length (Exports modl) + length (Imports modl) < 2 ^ 32"
  shows "funcEntries modl < 2 ^ 32"
    and "count_into (isFuncType \<circ> impType) (Imports modl)
           (count_into (isFuncType \<circ> expType) (Exports modl) 0) = (of_nat (funcEntries modl) :: uint32)"
proof -
  have "length (filter (isFuncType \<circ> expType) (Exports modl)) \<le> length (Exports modl)"
       "length (filter (isFuncType \<circ> impType) (Imports modl)) \<le> length (Imports modl)"
    by simp_all
  with assms show "funcEntries modl < 2 ^ 32"
    unfolding funcEntries_def by linarith
  show "count_into (isFuncType \<circ> impType) (Imports modl)
           (count_into (isFuncType \<circ> expType) (Exports modl) 0) = (of_nat (funcEntries modl) :: uint32)"
    by (simp add: count_into_filter funcEntries_def)
qed

lemma globalCount_nat:
  assumes "length (Exports modl) + length (Imports modl) < 2 ^ 32"
  shows "globalEntries modl < 2 ^ 32"
    and "count_into (isGlobalType \<circ> impType) (Imports modl)
           (count_into (isGlobalType \<circ> expType) (Exports modl) 0) = (of_nat (globalEntries modl) :: uint32)"
proof -
  have "length (filter (isGlobalType \<circ> expType) (Exports modl)) \<le> length (Exports modl)"
       "length (filter (isGlobalType \<circ> impType) (Imports modl)) \<le> length (Imports modl)"
    by simp_all
  with assms show "globalEntries modl < 2 ^ 32"
    unfolding globalEntries_def by linarith
  show "count_into (isGlobalType \<circ> impType) (Imports modl)
           (count_into (isGlobalType \<circ> expType) (Exports modl) 0) = (of_nat (globalEntries modl) :: uint32)"
    by (simp add: count_into_filter globalEntries_def)
qed

lemma checkCounts_None_iff:
  assumes "length (Exports modl) + length (Imports modl) < 2 ^ 32"
  shows "checkCounts modl lim = None \<longleftrightarrow>
           funcEntries modl \<le> unat (MaxFunctions lim)
         \<and> length (Exports modl) \<le> unat (MaxExports lim)
         \<and> length (Imports modl) \<le> unat (MaxImports lim)
         \<and> globalEntries modl \<le> unat (MaxGlobals lim)"
proof -
  from assms have e: "length (Exports modl) < 2 ^ 32" and i: "length (Imports modl) < 2 ^ 32"
    by simp_all
  show ?thesis
    unfolding checkCounts_def Let_def funcCount_nat(2) [OF assms] globalCount_nat(2) [OF assms]
    by (simp add: of_nat_gt_u32 [OF funcCount_nat(1) [OF assms]]
                  of_nat_gt_u32 [OF globalCount_nat(1) [OF assms]]
                  of_nat_gt_u32 [OF e] of_nat_gt_u32 [OF i] not_less)
qed

lemma checkCounts_rule:
  "checkCounts modl lim = Some e \<Longrightarrow> Rule e = ''resource-limits'' \<and> Cause e = Some ErrResourceLimitExceeded"
  by (auto simp: checkCounts_def Let_def limitExceeded_def NewValidationError_def split: if_splits)

lemma validateModule_None_iff:
  assumes "newModule bs = Inr modl"
      and "length (Exports modl) + length (Imports modl) < 2 ^ 32"
  shows "WasmRuntime_validateModule newModule lim bs = None \<longleftrightarrow>
           length (Exports modl) + length (Imports modl) \<le> unat (MaxFunctions lim)
         \<and> length (Imports modl) \<le> unat (MaxImports lim)
         \<and> length (Exports modl) \<le> unat (MaxExports lim)"
proof -
  from assms(2) have e: "length (Exports modl) < 2 ^ 32" and i: "length (Imports modl) < 2 ^ 32"
    by simp_all
  show ?thesis
    unfolding WasmRuntime_validateModule_def Let_def
    by (simp add: assms(1) of_nat_gt_u32 [OF assms(2)] of_nat_gt_u32 [OF e] of_nat_gt_u32 [OF i]
                  not_less del: of_nat_add)
qed

text \<open>
  The count check of \<open>DefaultValidator.ValidateResourceLimits\<close>: for a module with fewer
  than \<open>2 ^ 32\<close> exports and imports together, it rejects the module exactly when
  the exports exceed \<open>MaxExports\<close>, or the imports exceed \<open>MaxImports\<close>, or the
  function-typed exports and imports together exceed \<open>MaxFunctions\<close>, or the
  global-typed exports and imports together exceed \<open>MaxGlobals\<close>; the error is then
  what \<open>ValidateResourceLimits\<close> returns, with rule "resource-limits", and an export
  or import that is not a function does not change the function count. The last part
  states what \<open>WasmRuntime.validateModule\<close> compares instead.
\<close>

theorem count_checks:
  assumes "length (Exports modl) + length (Imports modl) < 2 ^ 32"
  shows "(checkCounts modl lim \<noteq> None \<longleftrightarrow>
            unat (MaxExports lim) < length (Exports modl)
          \<or> unat (MaxImports lim) < length (Imports modl)
          \<or> unat (MaxFunctions lim) < funcEntries modl
          \<or> unat (MaxGlobals lim) < globalEntries modl)
       \<and> (\<forall>e. checkCounts modl lim = Some e \<longrightarrow>
              ValidateResourceLimits modl lim = Some e \<and> Rule e = ''resource-limits'')
       \<and> (\<forall>x. \<not> isFuncType (expType x) \<longrightarrow>
              funcEntries (modl\<lparr>Exports := x # Exports modl\<rparr>) = funcEntries modl)
       \<and> (\<forall>y. \<not> isFuncType (impType y) \<longrightarrow>
              funcEntries (modl\<lparr>Imports := y # Imports modl\<rparr>) = funcEntries modl)
       \<and> (newModule bs = Inr modl \<longrightarrow>
            (WasmRuntime_validateModule newModule lim bs \<noteq> None \<longleftrightarrow>
               unat (MaxFunctions lim) < length (Exports modl) + length (Imports modl)
             \<or> unat (MaxImports lim) < length (Imports modl)
             \<or> unat (MaxExports lim) < length (Exports modl)))"
proof (intro conjI allI impI)
  show "checkCounts modl lim \<noteq> None \<longleftrightarrow>
            unat (MaxExports lim) < length (Exports modl)
          \<or> unat (MaxImports lim) < length (Imports modl)
          \<or> unat (MaxFunctions lim) < funcEntries modl
          \<or> unat (MaxGlobals lim) < globalEntries modl"
    unfolding checkCounts_None_iff [OF assms] by auto
next
  fix e assume "checkCounts modl lim = Some e"
  then show "ValidateResourceLimits modl lim = Some e" and "Rule e = ''resource-limits''"
    by (simp_all add: ValidateResourceLimits_def checkCounts_rule)
next
  fix x :: ExportType assume "\<not> isFuncType (expType x)"
  then show "funcEntries (modl\<lparr>Exports := x # Exports modl\<rparr>) = funcEntries modl"
    by (simp add: funcEntries_def)
next
  fix y :: ImportType assume "\<not> isFuncType (impType y)"
  then show "funcEntries (modl\<lparr>Imports := y # Imports modl\<rparr>) = funcEntries modl"
    by (simp add: funcEntries_def)
next
  assume nm: "newModule bs = Inr modl"
  show "WasmRuntime_validateModule newModule lim bs \<noteq> None \<longleftrightarrow>
               unat (MaxFunctions lim) < length (Exports modl) + length (Imports modl)
             \<or> unat (MaxImports lim) < length (Imports modl)
             \<or> unat (MaxExports lim) < length (Exports modl)"
    using validateModule_None_iff [where newModule = newModule and bs = bs and modl = modl and lim = lim, OF nm assms] by auto
qed

lemma three_functions_eval:
  "length (Exports three_functions) + length (Imports three_functions) < 2 ^ 32"
  "length (Exports three_functions) = 3"
  "length (Imports three_functions) = 0"
  "funcEntries three_functions = 3"
  "unat (MaxFunctions two_function_limits) = 2"
  "checkCounts three_functions two_function_limits
     = Some (ValidationError ''function count 3 exceeds limit 2'' ''resource-limits''
               (Some ErrResourceLimitExceeded))"
proof -
  show "length (Exports three_functions) + length (Imports three_functions) < 2 ^ 32"
       "length (Exports three_functions) = 3" "length (Imports three_functions) = 0"
    by (simp_all add: three_functions_def)
  show "funcEntries three_functions = 3"
    by (simp add: funcEntries_def three_functions_def isFuncType_def)
  show "unat (MaxFunctions two_function_limits) = 2"
    by (simp add: two_function_limits_def)
  show "checkCounts three_functions two_function_limits
     = Some (ValidationError ''function count 3 exceeds limit 2'' ''resource-limits''
               (Some ErrResourceLimitExceeded))"
    by code_simp
qed

text \<open>
  Three exported functions against a limit of two functions.
\<close>

theorem count_checks_witness:
  "checkCounts three_functions two_function_limits \<noteq> None
 \<and> ValidateResourceLimits three_functions two_function_limits
     = Some (ValidationError ''function count 3 exceeds limit 2'' ''resource-limits''
               (Some ErrResourceLimitExceeded))
 \<and> funcEntries (three_functions\<lparr>Exports := \<lparr>expName = ''g1'', expType = GlobalType\<rparr>
                                              # Exports three_functions\<rparr>) = 3
 \<and> funcEntries (three_functions\<lparr>Imports := \<lparr>impModule = ''env'', impName = Some ''g'',
                                                impType = GlobalType\<rparr>
                                              # Imports three_functions\<rparr>) = 3
 \<and> WasmRuntime_validateModule (\<lambda>_. Inr three_functions) two_function_limits [] \<noteq> None"
proof -
  note t = three_functions_eval
  have n: "\<not> isFuncType (expType \<lparr>expName = ''g1'', expType = GlobalType\<rparr>)"
          "\<not> isFuncType (impType \<lparr>impModule = ''env'', impName = Some ''g'', impType = GlobalType\<rparr>)"
    by (simp_all add: isFuncType_def)
  have p: "(\<lambda>_ :: bytes. (Inr three_functions :: error + Module)) [] = Inr three_functions"
    by simp
  from count_checks [OF t(1), of two_function_limits "\<lambda>_. Inr three_functions" "[]"] t n p
  show ?thesis
    by (simp del: not_None_eq)
qed

lemma three_globals_eval:
  "WasmRuntime_validateModule (\<lambda>_. Inr three_globals) two_function_limits []
     = Some (ValidationError ''function count 3 exceeds maximum allowed 2'' ''function-count'' None)"
  "checkCounts three_globals two_function_limits = None"
  "funcEntries three_globals = 0"
  "globalEntries three_globals = 3"
  "length (Exports three_globals) = 3"
  "length (Imports three_globals) = 0"
  "unat (MaxExports two_function_limits) = 10"
  "unat (MaxGlobals two_function_limits) = 10"
  by code_simp+

lemma many_globals_eval:
  "WasmRuntime_validateModule (\<lambda>_. Inr many_globals) DefaultResourceLimits [] = None"
  "globalEntries many_globals = 120"
  "unat (MaxGlobals DefaultResourceLimits) = 100"
proof -
  have len: "length (Exports many_globals) = 60" "length (Imports many_globals) = 60"
    by (simp_all add: many_globals_def)
  show "WasmRuntime_validateModule (\<lambda>_. Inr many_globals) DefaultResourceLimits [] = None"
    by (simp add: WasmRuntime_validateModule_def Let_def len DefaultResourceLimits_def)
  show "globalEntries many_globals = 120"
    by (simp add: globalEntries_def many_globals_def filter_map o_def isGlobalType_def)
  show "unat (MaxGlobals DefaultResourceLimits) = 100"
    by (simp add: DefaultResourceLimits_def)
qed

text \<open>
  C6. \<open>WasmRuntime.validateModule\<close> takes the number of all exports and imports for the
  function count. A module whose exports are three globals and which has no function
  at all is rejected, under a limit of two functions, with "function count 3 exceeds
  maximum allowed 2", where \<open>DefaultValidator.ValidateResourceLimits\<close> accepts the same
  module under the same limits; and it has no check of globals, so that a module
  with 120 globals is accepted under the default limit of 100 globals.
\<close>

theorem validateModule_counts_every_entry:
  "Exports three_globals
     = [\<lparr>expName = ''g1'', expType = GlobalType\<rparr>, \<lparr>expName = ''g2'', expType = GlobalType\<rparr>,
        \<lparr>expName = ''g3'', expType = GlobalType\<rparr>]
 \<and> Imports three_globals = []
 \<and> MaxFunctions two_function_limits = 2
 \<and> WasmRuntime_validateModule (\<lambda>_. Inr three_globals) two_function_limits []
     = Some (ValidationError ''function count 3 exceeds maximum allowed 2'' ''function-count'' None)
 \<and> ValidateResourceLimits three_globals two_function_limits = None
 \<and> funcEntries three_globals = 0
 \<and> length (Exports three_globals) = 3 \<and> unat (MaxExports two_function_limits) = 10
 \<and> length (Imports three_globals) = 0
 \<and> globalEntries three_globals = 3 \<and> unat (MaxGlobals two_function_limits) = 10
 \<and> WasmRuntime_validateModule (\<lambda>_. Inr many_globals) DefaultResourceLimits [] = None
 \<and> globalEntries many_globals = 120 \<and> unat (MaxGlobals DefaultResourceLimits) = 100"
proof -
  have e: "Exports three_globals
     = [\<lparr>expName = ''g1'', expType = GlobalType\<rparr>, \<lparr>expName = ''g2'', expType = GlobalType\<rparr>,
        \<lparr>expName = ''g3'', expType = GlobalType\<rparr>]" "Imports three_globals = []"
     "MaxFunctions two_function_limits = 2"
    by (simp_all add: three_globals_def two_function_limits_def)
  have v: "ValidateResourceLimits three_globals two_function_limits = None"
    by code_simp
  from e v show ?thesis
    by (simp add: three_globals_eval many_globals_eval)
qed

section \<open>The memory checks\<close>
































section \<open>The order of the checks\<close>







end
